theory Spec2Isabelle
  imports Complex_Main
begin

section \<open>Data model\<close>

text \<open>
  The control plane of ATHENA keeps its state in PostgreSQL tables (\<open>orders\<close>, \<open>fills\<close>,
  \<open>positions\<close>, \<open>strategies\<close>, \<open>risk_mandates\<close>, \<open>risk_alerts\<close>, \<open>audit_events\<close>,
  \<open>system_state\<close>), in Redis (\<open>price:<symbol>\<close> keys, the \<open>system_alerts\<close> channel) and in the
  WebSocket manager of the risk engine.  A table is a list of rows, a row is a record, and
  every statement takes the state and returns the new one.

  Conventions of the embedding:
  \<^item> NUMERIC columns and Python floats are \<open>real\<close>.  The float addition that accumulates the
    quantity of a position is not taken to be exact: it is the parameter \<open>fadd\<close> of the
    simulator, about which nothing is assumed;
  \<^item> a nullable column is an \<open>option\<close>;
  \<^item> a UUID is a natural number, and the UUIDs the database generates are drawn from the
    counter \<open>next_id\<close>;
  \<^item> of the time stamps only \<open>risk_mandates.updated_at\<close> is kept (it makes a status write
    observable); the clock is the argument \<open>now\<close>;
  \<^item> no handler runs in a transaction (\<open>Database.execute\<close>, \<open>fetch\<close>, \<open>fetchrow\<close> and
    \<open>fetchval\<close> take a connection of the pool for one statement, and the \<open>transaction\<close>
    helper is used nowhere), so every statement is committed on its own.  A handler is given
    as a function from the state to its answer and the new state, which is the handler running
    alone, and the handlers that write the trading tables are given once more as tasks that
    execute one awaited statement at a time, interleaved with each other and with the order
    simulator (section \<open>The system as interleaved statements\<close>).
\<close>

type_synonym uuid = nat

datatype order_side = BUY | SELL

datatype order_type = MARKET | LIMIT | STOP | STOP_LIMIT

datatype order_status = PENDING | OPEN | FILLED | PARTIAL | CANCELLED | REJECTED

datatype strategy_status = ACTIVE | INACTIVE | HALTED | ERROR

datatype mandate_status = OK | WARNING | BREACH

text \<open>\<open>AlertSeverity\<close>; its member \<open>WARNING\<close> is written \<open>WARNING_SEVERITY\<close>, the name
  \<open>WARNING\<close> being taken by \<open>MandateStatus\<close>.\<close>

datatype alert_severity = INFO | WARNING_SEVERITY | CRITICAL

text \<open>A JSON value, as \<open>json.loads\<close> returns it and \<open>json.dumps\<close> takes it.\<close>

datatype json = JNull | JBool bool | JNum real | JStr string | JObj "(string \<times> json) list"

text \<open>What a handler raises: \<open>HTTPException(status_code, detail)\<close>, which is every
  rejection of a handler, or another exception (a failed call of the database or of Redis
  that nothing catches), which ends the request; \<open>Exception e\<close> is the exception whose text
  is \<open>e\<close>.\<close>

datatype raised = HTTPException nat string | Exception string

record user_context =
  u_id :: string
  u_username :: string
  u_email :: string
  u_role :: string

record order_row =
  o_id :: uuid
  o_strategy_id :: "uuid option"
  o_symbol :: string
  o_side :: order_side
  o_order_type :: order_type
  o_quantity :: real
  o_price :: "real option"
  o_stop_price :: "real option"
  o_filled_quantity :: real
  o_average_fill_price :: "real option"
  o_status :: order_status
  o_created_by :: string

record fill_row =
  f_order_id :: uuid
  f_quantity :: real
  f_price :: real

record position_row =
  p_id :: uuid
  p_strategy_id :: "uuid option"
  p_symbol :: string
  p_quantity :: real
  p_average_entry_price :: "real option"
  p_current_price :: "real option"

record strategy_row =
  s_id :: uuid
  s_status :: strategy_status

record mandate_row =
  m_id :: uuid
  m_mandate_id :: string
  m_description :: string
  m_soft_limit :: "real option"
  m_hard_limit :: "real option"
  m_current_value :: "real option"
  m_status :: mandate_status
  m_is_active :: bool
  m_updated_at :: nat

text \<open>The \<open>alert\<close> dictionary of \<open>check_mandate_breaches\<close> (without its random \<open>id\<close> and its
  \<open>timestamp\<close>); the same value is broadcast and stored in \<open>risk_alerts\<close>.\<close>

record alert_row =
  a_mandate_id :: uuid
  a_mandate_code :: string
  a_severity :: alert_severity
  a_message :: string
  a_current_value :: real
  a_limit :: "real option"

record audit_row =
  au_user_id :: "string option"
  au_service :: string
  au_action :: string
  au_resource_type :: string
  au_resource_id :: "string + uuid"
  au_before_state :: "json option"
  au_after_state :: "json option"

text \<open>What \<open>alert_manager.broadcast_alert\<close> sends to the connected sockets.\<close>

datatype ws_message =
    MANDATE_ALERT alert_row
  | KILL_SWITCH string string nat nat nat

record state =
  orders :: "order_row list"
  fills :: "fill_row list"
  positions :: "position_row list"
  strategies :: "strategy_row list"
  risk_mandates :: "mandate_row list"
  risk_alerts :: "alert_row list"
  audit_events :: "audit_row list"
  system_state :: "string \<rightharpoonup> json"
  prices :: "string \<rightharpoonup> real"
  broadcasts :: "ws_message list"
  published :: "(string \<times> json) list"
  next_id :: uuid

text \<open>\<open>log_audit\<close> (both services define it, with their own service name):
  \<open>json.dumps(before) if before else None\<close> stores no empty dictionary.  The resource id is
  a text (\<open>Inl\<close>) or the text of a UUID (\<open>Inr\<close>).\<close>

definition dumps_if :: "json option \<Rightarrow> json option" where
  "dumps_if d = (case d of Some (JObj []) \<Rightarrow> None | _ \<Rightarrow> d)"

definition log_audit ::
  "string \<Rightarrow> string \<Rightarrow> string \<Rightarrow> string \<Rightarrow> string + uuid \<Rightarrow> json option \<Rightarrow> json option
    \<Rightarrow> state \<Rightarrow> state" where
  "log_audit service user_id action resource_type resource_id before_state after_state st =
     st\<lparr>audit_events := audit_events st @
       [\<lparr>au_user_id = (if user_id \<noteq> [] then Some user_id else None),
         au_service = service, au_action = action,
         au_resource_type = resource_type, au_resource_id = resource_id,
         au_before_state = dumps_if before_state,
         au_after_state = dumps_if after_state\<rparr>]\<rparr>"

section \<open>Risk engine: mandate evaluation\<close>

text \<open>Lines 115 to 127 of \<open>check_mandate_breaches\<close>.  The three columns are read through
  Python's truth test (\<open>float(x) if x else ...\<close>), which is false for NULL and for zero, and
  the limits are tested once more in \<open>if hard_limit and ...\<close>.\<close>

definition truthy :: "real option \<Rightarrow> bool" where
  "truthy v = (case v of None \<Rightarrow> False | Some x \<Rightarrow> x \<noteq> 0)"

definition mandate_new_status :: "mandate_row \<Rightarrow> mandate_status \<times> alert_severity option" where
  "mandate_new_status mandate =
     (let current = (case m_current_value mandate of
                       Some v \<Rightarrow> if truthy (Some v) then v else 0 | None \<Rightarrow> 0);
          hard_limit = (if truthy (m_hard_limit mandate) then m_hard_limit mandate else None);
          soft_limit = (if truthy (m_soft_limit mandate) then m_soft_limit mandate else None)
      in if (case hard_limit of Some h \<Rightarrow> truthy (Some h) \<and> \<bar>current\<bar> \<ge> \<bar>h\<bar> | None \<Rightarrow> False)
         then (BREACH, Some CRITICAL)
         else if (case soft_limit of Some s \<Rightarrow> truthy (Some s) \<and> \<bar>current\<bar> \<ge> \<bar>s\<bar> | None \<Rightarrow> False)
         then (WARNING, Some WARNING_SEVERITY)
         else (OK, None))"

text \<open>The status of a mandate as the specification words it: a limit is set when the column
  is not NULL, and the current value of a mandate without one is 0.\<close>

definition spec_mandate_status :: "mandate_row \<Rightarrow> mandate_status \<times> alert_severity option" where
  "spec_mandate_status mandate =
     (let current = (case m_current_value mandate of Some v \<Rightarrow> v | None \<Rightarrow> 0)
      in if (case m_hard_limit mandate of Some h \<Rightarrow> \<bar>current\<bar> \<ge> \<bar>h\<bar> | None \<Rightarrow> False)
         then (BREACH, Some CRITICAL)
         else if (case m_soft_limit mandate of Some s \<Rightarrow> \<bar>current\<bar> \<ge> \<bar>s\<bar> | None \<Rightarrow> False)
         then (WARNING, Some WARNING_SEVERITY)
         else (OK, None))"

fun mandate_status_str :: "mandate_status \<Rightarrow> string" where
  "mandate_status_str OK = ''OK''"
| "mandate_status_str WARNING = ''WARNING''"
| "mandate_status_str BREACH = ''BREACH''"

text \<open>The body of the loop of \<open>check_mandate_breaches\<close> for one fetched row: when the status
  differs from the stored one, the row with that id is updated, and when there is a severity
  the alert is broadcast and stored.\<close>

definition set_mandate_status :: "uuid \<Rightarrow> mandate_status \<Rightarrow> nat \<Rightarrow> mandate_row \<Rightarrow> mandate_row" where
  "set_mandate_status i new_status now r =
     (if m_id r = i then r\<lparr>m_status := new_status, m_updated_at := now\<rparr> else r)"

definition mandate_alert :: "mandate_row \<Rightarrow> mandate_status \<Rightarrow> alert_severity \<Rightarrow> alert_row" where
  "mandate_alert mandate new_status alert_severity =
     \<lparr>a_mandate_id = m_id mandate,
      a_mandate_code = m_mandate_id mandate,
      a_severity = alert_severity,
      a_message = ''Mandate '' @ m_mandate_id mandate @ '': '' @ m_description mandate
                    @ '' - '' @ mandate_status_str new_status,
      a_current_value = (case m_current_value mandate of
                           Some v \<Rightarrow> if truthy (Some v) then v else 0 | None \<Rightarrow> 0),
      a_limit = (if new_status = BREACH
                 then (if truthy (m_hard_limit mandate) then m_hard_limit mandate else None)
                 else (if truthy (m_soft_limit mandate) then m_soft_limit mandate else None))\<rparr>"

definition check_mandate :: "nat \<Rightarrow> mandate_row \<Rightarrow> state \<Rightarrow> state" where
  "check_mandate now mandate st =
     (let (new_status, alert_severity) = mandate_new_status mandate
      in if m_status mandate \<noteq> new_status then
           (let st1 = st\<lparr>risk_mandates :=
                          map (set_mandate_status (m_id mandate) new_status now) (risk_mandates st)\<rparr>
            in case alert_severity of
                 None \<Rightarrow> st1
               | Some sev \<Rightarrow>
                   (let alert = mandate_alert mandate new_status sev
                    in st1\<lparr>broadcasts := broadcasts st1 @ [MANDATE_ALERT alert],
                           risk_alerts := risk_alerts st1 @ [alert]\<rparr>))
         else st)"

definition check_mandate_breaches :: "nat \<Rightarrow> state \<Rightarrow> state" where
  "check_mandate_breaches now st =
     fold (check_mandate now) (filter m_is_active (risk_mandates st)) st"

text \<open>One iteration of \<open>risk_monitoring_loop\<close>: every active mandate the random draw
  selects gets a new current value (\<open>updates\<close> maps the ids of the selected mandates to it),
  then the mandates are checked.  The simulated \<open>RISK_STATE\<close> and its snapshots are not part
  of the model.\<close>

definition set_current_value :: "uuid \<Rightarrow> real \<Rightarrow> mandate_row \<Rightarrow> mandate_row" where
  "set_current_value i new_value r =
     (if m_id r = i then r\<lparr>m_current_value := Some new_value\<rparr> else r)"

definition update_mandate_value :: "(uuid \<rightharpoonup> real) \<Rightarrow> mandate_row \<Rightarrow> state \<Rightarrow> state" where
  "update_mandate_value updates mandate st =
     (case updates (m_id mandate) of
        None \<Rightarrow> st
      | Some new_value \<Rightarrow>
          st\<lparr>risk_mandates := map (set_current_value (m_id mandate) new_value) (risk_mandates st)\<rparr>)"

definition update_mandate_values :: "(uuid \<rightharpoonup> real) \<Rightarrow> state \<Rightarrow> state" where
  "update_mandate_values updates st =
     fold (update_mandate_value updates) (filter m_is_active (risk_mandates st)) st"

definition risk_monitoring_iteration :: "nat \<times> (uuid \<rightharpoonup> real) \<Rightarrow> state \<Rightarrow> state" where
  "risk_monitoring_iteration it st =
     check_mandate_breaches (fst it) (update_mandate_values (snd it) st)"

text \<open>The loop never ends; its first iterations are a fold over their clock readings and
  random draws.\<close>

definition risk_monitoring_loop :: "(nat \<times> (uuid \<rightharpoonup> real)) list \<Rightarrow> state \<Rightarrow> state" where
  "risk_monitoring_loop its st = fold risk_monitoring_iteration its st"

text \<open>The alerts stored for a mandate, and the statuses the iterations of the loop compute
  for the active mandate with a given id.\<close>

definition alerts_for :: "uuid \<Rightarrow> state \<Rightarrow> alert_row list" where
  "alerts_for i st = filter (\<lambda>a. a_mandate_id a = i) (risk_alerts st)"

fun evaluated_statuses ::
  "uuid \<Rightarrow> (nat \<times> (uuid \<rightharpoonup> real)) list \<Rightarrow> state \<Rightarrow> mandate_status list" where
  "evaluated_statuses i [] st = []"
| "evaluated_statuses i (it # its) st =
     map (\<lambda>m. fst (mandate_new_status m))
       (filter (\<lambda>m. m_id m = i \<and> m_is_active m)
          (risk_mandates (update_mandate_values (snd it) st)))
     @ evaluated_statuses i its (risk_monitoring_iteration it st)"

section \<open>Authorization\<close>

text \<open>\<open>ROLE_PERMISSIONS\<close>, \<open>has_permission\<close> and \<open>require_permission\<close> of the shared module
  \<open>auth\<close>.  A user context is what \<open>get_current_user\<close> made of a valid token; the dependency
  \<open>require_permission(permission)\<close> of an endpoint is resolved before the body of the endpoint
  runs, and raises when the role of the user lacks the permission.\<close>

definition ROLE_PERMISSIONS :: "(string \<times> string list) list" where
  "ROLE_PERMISSIONS =
     [(''ADMIN'', [''kill_switch'', ''strategy_override'', ''manual_execution'',
                   ''strategy_register'', ''parameter_update'', ''read_only'', ''view_audit'',
                   ''manage_users'']),
      (''QUANT'', [''strategy_register'', ''parameter_update'', ''read_only'', ''view_audit'']),
      (''VIEWER'', [''read_only''])]"

definition has_permission :: "string \<Rightarrow> string \<Rightarrow> bool" where
  "has_permission role permission =
     (let permissions = (case map_of ROLE_PERMISSIONS role of Some ps \<Rightarrow> ps | None \<Rightarrow> [])
      in permission \<in> set permissions)"

definition require_permission :: "string \<Rightarrow> user_context \<Rightarrow> raised + user_context" where
  "require_permission permission user =
     (if \<not> has_permission (u_role user) permission
      then Inl (HTTPException 403 (''Access denied. Missing permission: '' @ permission))
      else Inr user)"

section \<open>Risk engine: kill switch\<close>

record kill_switch_request =
  ks_reason :: string
  ks_confirm :: bool

record kill_switch_response =
  ksr_success :: bool
  ksr_orders_cancelled :: nat
  ksr_positions_closed :: nat
  ksr_message :: string

text \<open>The statements of the kill switch.  \<open>UPDATE system_state ... WHERE key = k\<close> changes
  the row of the key when there is one, and inserts none.\<close>

definition cancel_pending_open :: "order_row \<Rightarrow> order_row" where
  "cancel_pending_open r = (if o_status r \<in> {PENDING, OPEN} then r\<lparr>o_status := CANCELLED\<rparr> else r)"

definition halt_active :: "strategy_row \<Rightarrow> strategy_row" where
  "halt_active r = (if s_status r = ACTIVE then r\<lparr>s_status := HALTED\<rparr> else r)"

definition update_system_state :: "string \<Rightarrow> json \<Rightarrow> state \<Rightarrow> state" where
  "update_system_state k v st =
     (case system_state st k of
        None \<Rightarrow> st
      | Some old \<Rightarrow> st\<lparr>system_state := (system_state st)(k \<mapsto> v)\<rparr>)"

text \<open>A failure of the database or of Redis is an input of the model: \<open>fault = Some (k, e)\<close>
  makes one awaited call of the handler raise an exception whose text is \<open>e\<close>, and a call that
  raises has had no effect.  The calls of the \<open>try\<close> block are numbered from 0 (0: cancel the
  orders, 1: count the positions, 2: zero the positions, 3: halt the strategies, 4: set
  \<open>kill_switch_active\<close>, 5: set \<open>system_status\<close>, 6: the audit record, 7: the Redis
  publication); 8 and 9 are the two counts that precede the \<open>try\<close> block.
  \<open>broadcast_alert\<close> catches the failures of its sockets and raises nothing.\<close>

type_synonym fault = "(nat \<times> string) option"

definition raises :: "fault \<Rightarrow> nat \<Rightarrow> bool" where
  "raises fault k = (case fault of Some (j, e) \<Rightarrow> j = k | None \<Rightarrow> False)"

definition exception_text :: "fault \<Rightarrow> string" where
  "exception_text fault = (case fault of Some (j, e) \<Rightarrow> e | None \<Rightarrow> [])"

definition kill_switch_try ::
  "kill_switch_request \<Rightarrow> user_context \<Rightarrow> nat \<Rightarrow> nat \<Rightarrow> fault \<Rightarrow> state
    \<Rightarrow> (string + kill_switch_response) \<times> state" where
  "kill_switch_try request current_user open_orders active_strategies fault st0 =
     (if raises fault 0 then (Inl (exception_text fault), st0) else
      let st1 = st0\<lparr>orders := map cancel_pending_open (orders st0)\<rparr> in
      if raises fault 1 then (Inl (exception_text fault), st1) else
      let positions_closed = length (filter (\<lambda>p. p_quantity p \<noteq> 0) (positions st1)) in
      if raises fault 2 then (Inl (exception_text fault), st1) else
      let st2 = st1\<lparr>positions := map (\<lambda>p. p\<lparr>p_quantity := 0\<rparr>) (positions st1)\<rparr> in
      if raises fault 3 then (Inl (exception_text fault), st2) else
      let st3 = st2\<lparr>strategies := map halt_active (strategies st2)\<rparr> in
      if raises fault 4 then (Inl (exception_text fault), st3) else
      let st4 = update_system_state ''kill_switch_active'' (JBool True) st3 in
      if raises fault 5 then (Inl (exception_text fault), st4) else
      let st5 = update_system_state ''system_status'' (JStr ''EMERGENCY'') st4 in
      if raises fault 6 then (Inl (exception_text fault), st5) else
      let st6 = log_audit ''risk-engine'' (u_id current_user) ''KILL_SWITCH_EXECUTE''
                  ''system'' (Inl ''global'')
                  (Some (JObj [(''open_orders'', JNum (real open_orders)),
                               (''active_strategies'', JNum (real active_strategies)),
                               (''kill_switch_active'', JBool False)]))
                  (Some (JObj [(''open_orders'', JNum 0),
                               (''active_strategies'', JNum 0),
                               (''kill_switch_active'', JBool True),
                               (''positions_closed'', JNum (real positions_closed))]))
                  st5;
          st7 = st6\<lparr>broadcasts := broadcasts st6 @
                  [KILL_SWITCH (''KILL SWITCH ACTIVATED by '' @ u_username current_user)
                     (ks_reason request) open_orders positions_closed active_strategies]\<rparr> in
      if raises fault 7 then (Inl (exception_text fault), st7) else
      let st8 = st7\<lparr>published := published st7 @
                  [(''system_alerts'',
                    JObj [(''type'', JStr ''KILL_SWITCH''),
                          (''executed_by'', JStr (u_username current_user)),
                          (''reason'', JStr (ks_reason request))])]\<rparr> in
      (Inr \<lparr>ksr_success = True, ksr_orders_cancelled = open_orders,
            ksr_positions_closed = positions_closed,
            ksr_message = ''Kill switch executed. Reason: '' @ ks_reason request\<rparr>, st8))"

text \<open>The endpoint \<open>execute_kill_switch\<close>.  Its dependency
  \<open>require_permission("kill_switch")\<close> comes first: a user without the permission is answered
  with its HTTP 403 and the body does not run.  Then the confirmation is tested, the open
  orders and the active strategies are counted (an exception of one of these two calls is
  caught by nothing), and the \<open>try\<close> block runs, whose exceptions become HTTP 500.\<close>

definition execute_kill_switch ::
  "kill_switch_request \<Rightarrow> user_context \<Rightarrow> fault \<Rightarrow> state
    \<Rightarrow> (raised + kill_switch_response) \<times> state" where
  "execute_kill_switch request user fault st =
     (case require_permission ''kill_switch'' user of
        Inl denied \<Rightarrow> (Inl denied, st)
      | Inr current_user \<Rightarrow>
          if \<not> ks_confirm request
          then (Inl (HTTPException 400 ''Kill switch must be explicitly confirmed''), st)
          else if raises fault 8 then (Inl (Exception (exception_text fault)), st)
          else
            let open_orders = length (filter (\<lambda>r. o_status r \<in> {PENDING, OPEN}) (orders st))
            in if raises fault 9 then (Inl (Exception (exception_text fault)), st)
            else
              let active_strategies = length (filter (\<lambda>r. s_status r = ACTIVE) (strategies st))
              in case kill_switch_try request current_user open_orders active_strategies
                        fault st of
                   (Inl e, st') \<Rightarrow> (Inl (HTTPException 500 (''Kill switch failed: '' @ e)), st')
                 | (Inr response, st') \<Rightarrow> (Inr response, st'))"

section \<open>Execution gateway\<close>

record order_create =
  oc_symbol :: string
  oc_side :: order_side
  oc_order_type :: order_type
  oc_quantity :: real
  oc_price :: "real option"
  oc_stop_price :: "real option"
  oc_strategy_id :: "uuid option"

record send_order_response =
  sor_order_id :: uuid
  sor_symbol :: string
  sor_side :: order_side
  sor_quantity :: real
  sor_status :: order_status

fun order_status_str :: "order_status \<Rightarrow> string" where
  "order_status_str PENDING = ''PENDING''"
| "order_status_str OPEN = ''OPEN''"
| "order_status_str FILLED = ''FILLED''"
| "order_status_str PARTIAL = ''PARTIAL''"
| "order_status_str CANCELLED = ''CANCELLED''"
| "order_status_str REJECTED = ''REJECTED''"

fun order_side_str :: "order_side \<Rightarrow> string" where
  "order_side_str BUY = ''BUY''"
| "order_side_str SELL = ''SELL''"

fun order_type_str :: "order_type \<Rightarrow> string" where
  "order_type_str MARKET = ''MARKET''"
| "order_type_str LIMIT = ''LIMIT''"
| "order_type_str STOP = ''STOP''"
| "order_type_str STOP_LIMIT = ''STOP_LIMIT''"

text \<open>\<open>json.loads(kill_switch) == True\<close>: in Python the number 1 equals \<open>True\<close> too.  The
  table \<open>system_state\<close> of the model holds the parsed value of the JSON text of the column.\<close>

definition equals_True :: "json \<Rightarrow> bool" where
  "equals_True v = (v = JBool True \<or> v = JNum 1)"

definition kill_switch_active :: "state \<Rightarrow> bool" where
  "kill_switch_active st =
     (case system_state st ''kill_switch_active'' of Some v \<Rightarrow> equals_True v | None \<Rightarrow> False)"

text \<open>Modelled from the spec: the defaults of the columns \<open>filled_quantity\<close> and
  \<open>average_fill_price\<close> of the table \<open>orders\<close>, which the \<open>INSERT\<close> of \<open>send_order\<close> does not
  name (the schema is not part of the sources).  An order is created with nothing filled.\<close>

definition default_filled_quantity :: real where
  [simp]: "default_filled_quantity = 0"

definition default_average_fill_price :: "real option" where
  [simp]: "default_average_fill_price = None"

text \<open>\<open>send_order\<close>.  \<open>prices st symbol\<close> is the \<open>last_price\<close> of the Redis key
  \<open>price:<symbol>\<close>, \<open>None\<close> when the key is absent or has expired.\<close>

definition send_order ::
  "order_create \<Rightarrow> user_context \<Rightarrow> state \<Rightarrow> (raised + send_order_response) \<times> state" where
  "send_order order current_user st =
     (if u_role current_user = ''VIEWER''
      then (Inl (HTTPException 403 ''Viewers cannot submit orders''), st)
      else if kill_switch_active st
      then (Inl (HTTPException 403 ''Trading suspended - Kill switch active''), st)
      else case prices st (oc_symbol order) of
        None \<Rightarrow> (Inl (HTTPException 400 (''Unknown symbol: '' @ oc_symbol order)), st)
      | Some last_price \<Rightarrow>
          (let order_id = next_id st;
               row = \<lparr>o_id = order_id,
                      o_strategy_id = oc_strategy_id order,
                      o_symbol = oc_symbol order,
                      o_side = oc_side order,
                      o_order_type = oc_order_type order,
                      o_quantity = oc_quantity order,
                      o_price = Some (if truthy (oc_price order)
                                      then the (oc_price order) else last_price),
                      o_stop_price = oc_stop_price order,
                      o_filled_quantity = default_filled_quantity,
                      o_average_fill_price = default_average_fill_price,
                      o_status = PENDING,
                      o_created_by = u_id current_user\<rparr>;
               st1 = st\<lparr>orders := orders st @ [row], next_id := Suc (next_id st)\<rparr>;
               st2 = log_audit ''execution-gateway'' (u_id current_user) ''ORDER_SUBMIT''
                       ''order'' (Inr order_id) None
                       (Some (JObj [(''symbol'', JStr (oc_symbol order)),
                                    (''side'', JStr (order_side_str (oc_side order))),
                                    (''quantity'', JNum (oc_quantity order)),
                                    (''type'', JStr (order_type_str (oc_order_type order)))]))
                       st1
           in (Inr \<lparr>sor_order_id = order_id, sor_symbol = oc_symbol order,
                    sor_side = oc_side order, sor_quantity = oc_quantity order,
                    sor_status = PENDING\<rparr>, st2)))"

text \<open>\<open>cancel_all_orders\<close> and \<open>cancel_order\<close>.\<close>

definition is_open :: "order_row \<Rightarrow> bool" where
  "is_open r = (o_status r \<in> {PENDING, OPEN, PARTIAL})"

definition cancel_if_open :: "order_row \<Rightarrow> order_row" where
  "cancel_if_open r = (if is_open r then r\<lparr>o_status := CANCELLED\<rparr> else r)"

definition cancel_all_orders :: "user_context \<Rightarrow> state \<Rightarrow> (raised + nat) \<times> state" where
  "cancel_all_orders current_user st =
     (if u_role current_user \<noteq> ''ADMIN''
      then (Inl (HTTPException 403 ''Admin access required''), st)
      else
        let before_count = length (filter is_open (orders st));
            st1 = st\<lparr>orders := map cancel_if_open (orders st)\<rparr>;
            st2 = log_audit ''execution-gateway'' (u_id current_user) ''ORDERS_CANCEL_ALL''
                    ''order'' (Inl ''all'')
                    (Some (JObj [(''open_orders'', JNum (real before_count))]))
                    (Some (JObj [(''open_orders'', JNum 0)])) st1
        in (Inr before_count, st2))"

definition cancel_by_id :: "uuid \<Rightarrow> order_row \<Rightarrow> order_row" where
  "cancel_by_id i r = (if o_id r = i then r\<lparr>o_status := CANCELLED\<rparr> else r)"

text \<open>The answer of a successful \<open>cancel_order\<close> is the order id and the previous status.\<close>

definition cancel_order ::
  "uuid \<Rightarrow> user_context \<Rightarrow> state \<Rightarrow> (raised + uuid \<times> order_status) \<times> state" where
  "cancel_order order_id current_user st =
     (if u_role current_user = ''VIEWER''
      then (Inl (HTTPException 403 ''Viewers cannot cancel orders''), st)
      else case find (\<lambda>r. o_id r = order_id) (orders st) of
        None \<Rightarrow> (Inl (HTTPException 404 ''Order not found''), st)
      | Some order \<Rightarrow>
          if o_status order \<in> {FILLED, CANCELLED, REJECTED}
          then (Inl (HTTPException 400
                  (''Cannot cancel order with status: '' @ order_status_str (o_status order))), st)
          else
            let before_status = o_status order;
                st1 = st\<lparr>orders := map (cancel_by_id order_id) (orders st)\<rparr>;
                st2 = log_audit ''execution-gateway'' (u_id current_user) ''ORDER_CANCEL''
                        ''order'' (Inr order_id)
                        (Some (JObj [(''status'', JStr (order_status_str before_status))]))
                        (Some (JObj [(''status'', JStr ''CANCELLED'')])) st1
            in (Inr (order_id, before_status), st2))"

text \<open>The expressions and statements of \<open>simulate_order_execution\<close>.  The random numbers
  are inputs: for every order, \<open>chance\<close> is what \<open>random.random()\<close> returned and \<open>u\<close> is the
  fraction behind \<open>random.uniform(0, remaining)\<close>, which Python computes as
  \<open>a + (b - a) * random()\<close> and documents to lie between \<open>a\<close> and \<open>b\<close>, so \<open>0 \<le> u \<le> 1\<close>.\<close>

definition uniform :: "real \<Rightarrow> real \<Rightarrow> real \<Rightarrow> real" where
  "uniform a b u = a + (b - a) * u"

definition fill_price_for :: "order_row \<Rightarrow> state \<Rightarrow> real" where
  "fill_price_for order st =
     (case prices st (o_symbol order) of
        Some last_price \<Rightarrow> last_price
      | None \<Rightarrow> if truthy (o_price order) then the (o_price order) else 100)"

text \<open>\<open>WHERE symbol = $1 AND strategy_id = $2\<close>: in SQL the comparison with a NULL
  \<open>strategy_id\<close> selects no row.\<close>

definition position_matches :: "order_row \<Rightarrow> position_row \<Rightarrow> bool" where
  "position_matches order p =
     (p_symbol p = o_symbol order \<and>
      (case o_strategy_id order of Some s \<Rightarrow> p_strategy_id p = Some s | None \<Rightarrow> False))"

definition set_filled :: "uuid \<Rightarrow> real \<Rightarrow> real \<Rightarrow> order_status \<Rightarrow> order_row \<Rightarrow> order_row" where
  "set_filled i new_filled avg_price new_status r =
     (if o_id r = i
      then r\<lparr>o_filled_quantity := new_filled, o_average_fill_price := Some avg_price,
             o_status := new_status\<rparr>
      else r)"

definition set_position :: "uuid \<Rightarrow> real \<Rightarrow> real \<Rightarrow> position_row \<Rightarrow> position_row" where
  "set_position i new_qty fill_price p =
     (if p_id p = i then p\<lparr>p_quantity := new_qty, p_current_price := Some fill_price\<rparr> else p)"

section \<open>The system as interleaved statements\<close>

text \<open>
  The handlers are coroutines: at every \<open>await\<close> of a call of the database or of Redis the
  event loop may run the other requests in flight and the order simulator, and the risk engine
  is a process of its own on the same database.  So a request is a task: the awaited statement
  it executes next, with the local variables it holds.  A task executes one statement at a
  time, and the synchronous code that follows up to the next \<open>await\<close> with it.

  The tasks of \<open>send_order\<close>, \<open>cancel_all_orders\<close>, \<open>cancel_order\<close> and
  \<open>execute_kill_switch\<close>, by the statement they are about to execute:
\<close>

datatype kill_statement =
    Cancel_orders
  | Count_positions
  | Zero_positions nat
  | Halt_strategies nat
  | Set_kill_switch_active nat
  | Set_system_status nat
  | Log_audit nat
  | Broadcast_alert nat
  | Publish_alert nat

datatype task =
    Send_select_kill_switch order_create user_context
  | Send_get_price order_create user_context
  | Send_insert_order order_create user_context real
  | Send_log_audit order_create user_context uuid
  | Cancel_all_count user_context
  | Cancel_all_update user_context nat
  | Cancel_all_log_audit user_context nat
  | Cancel_select uuid user_context
  | Cancel_update uuid user_context order_status
  | Cancel_log_audit uuid user_context order_status
  | Kill_count_orders kill_switch_request user_context
  | Kill_count_strategies kill_switch_request user_context nat
  | Kill_try kill_statement kill_switch_request user_context nat nat

text \<open>The arguments of a task are the local variables of the handler: \<open>last_price\<close> for
  \<open>Send_insert_order\<close>, \<open>order_id\<close> for \<open>Send_log_audit\<close>, \<open>before_count\<close> for the second
  and third task of \<open>cancel_all_orders\<close>, \<open>before_status\<close> for those of \<open>cancel_order\<close>,
  \<open>open_orders\<close> and \<open>active_strategies\<close> for the kill switch, and \<open>positions_closed\<close> for
  the statements of its \<open>try\<close> block that follow the count of the positions.

  A request that arrives runs up to its first \<open>await\<close>: the tests of the role, of the
  permission and of the confirmation reject it before any statement.\<close>

datatype request =
    SendOrder order_create user_context
  | CancelOrder uuid user_context
  | CancelAllOrders user_context
  | ExecuteKillSwitch kill_switch_request user_context

fun start :: "request \<Rightarrow> task option" where
  "start (SendOrder order current_user) =
     (if u_role current_user = ''VIEWER'' then None
      else Some (Send_select_kill_switch order current_user))"
| "start (CancelOrder order_id current_user) =
     (if u_role current_user = ''VIEWER'' then None
      else Some (Cancel_select order_id current_user))"
| "start (CancelAllOrders current_user) =
     (if u_role current_user \<noteq> ''ADMIN'' then None
      else Some (Cancel_all_count current_user))"
| "start (ExecuteKillSwitch request user) =
     (case require_permission ''kill_switch'' user of
        Inl denied \<Rightarrow> None
      | Inr current_user \<Rightarrow>
          if \<not> ks_confirm request then None
          else Some (Kill_count_orders request current_user))"

text \<open>\<open>advance\<close>: the statement of the task completes.  The result is the new state and the
  task that remains, \<open>None\<close> when the handler has returned or raised its \<open>HTTPException\<close>.\<close>

fun advance :: "task \<Rightarrow> state \<Rightarrow> state \<times> task option" where
  "advance (Send_select_kill_switch order current_user) st =
     (st, if kill_switch_active st then None else Some (Send_get_price order current_user))"
| "advance (Send_get_price order current_user) st =
     (st, case prices st (oc_symbol order) of
            None \<Rightarrow> None
          | Some last_price \<Rightarrow> Some (Send_insert_order order current_user last_price))"
| "advance (Send_insert_order order current_user last_price) st =
     (st\<lparr>orders := orders st @
            [\<lparr>o_id = next_id st,
              o_strategy_id = oc_strategy_id order,
              o_symbol = oc_symbol order,
              o_side = oc_side order,
              o_order_type = oc_order_type order,
              o_quantity = oc_quantity order,
              o_price = Some (if truthy (oc_price order) then the (oc_price order) else last_price),
              o_stop_price = oc_stop_price order,
              o_filled_quantity = default_filled_quantity,
              o_average_fill_price = default_average_fill_price,
              o_status = PENDING,
              o_created_by = u_id current_user\<rparr>],
          next_id := Suc (next_id st)\<rparr>,
      Some (Send_log_audit order current_user (next_id st)))"
| "advance (Send_log_audit order current_user order_id) st =
     (log_audit ''execution-gateway'' (u_id current_user) ''ORDER_SUBMIT''
        ''order'' (Inr order_id) None
        (Some (JObj [(''symbol'', JStr (oc_symbol order)),
                     (''side'', JStr (order_side_str (oc_side order))),
                     (''quantity'', JNum (oc_quantity order)),
                     (''type'', JStr (order_type_str (oc_order_type order)))]))
        st,
      None)"
| "advance (Cancel_all_count current_user) st =
     (st, Some (Cancel_all_update current_user (length (filter is_open (orders st)))))"
| "advance (Cancel_all_update current_user before_count) st =
     (st\<lparr>orders := map cancel_if_open (orders st)\<rparr>,
      Some (Cancel_all_log_audit current_user before_count))"
| "advance (Cancel_all_log_audit current_user before_count) st =
     (log_audit ''execution-gateway'' (u_id current_user) ''ORDERS_CANCEL_ALL''
        ''order'' (Inl ''all'')
        (Some (JObj [(''open_orders'', JNum (real before_count))]))
        (Some (JObj [(''open_orders'', JNum 0)])) st,
      None)"
| "advance (Cancel_select order_id current_user) st =
     (st, case find (\<lambda>r. o_id r = order_id) (orders st) of
            None \<Rightarrow> None
          | Some order \<Rightarrow>
              if o_status order \<in> {FILLED, CANCELLED, REJECTED} then None
              else Some (Cancel_update order_id current_user (o_status order)))"
| "advance (Cancel_update order_id current_user before_status) st =
     (st\<lparr>orders := map (cancel_by_id order_id) (orders st)\<rparr>,
      Some (Cancel_log_audit order_id current_user before_status))"
| "advance (Cancel_log_audit order_id current_user before_status) st =
     (log_audit ''execution-gateway'' (u_id current_user) ''ORDER_CANCEL''
        ''order'' (Inr order_id)
        (Some (JObj [(''status'', JStr (order_status_str before_status))]))
        (Some (JObj [(''status'', JStr ''CANCELLED'')])) st,
      None)"
| "advance (Kill_count_orders request current_user) st =
     (st, Some (Kill_count_strategies request current_user
                  (length (filter (\<lambda>r. o_status r \<in> {PENDING, OPEN}) (orders st)))))"
| "advance (Kill_count_strategies request current_user open_orders) st =
     (st, Some (Kill_try Cancel_orders request current_user open_orders
                  (length (filter (\<lambda>r. s_status r = ACTIVE) (strategies st)))))"
| "advance (Kill_try Cancel_orders request current_user open_orders active_strategies) st =
     (st\<lparr>orders := map cancel_pending_open (orders st)\<rparr>,
      Some (Kill_try Count_positions request current_user open_orders active_strategies))"
| "advance (Kill_try Count_positions request current_user open_orders active_strategies) st =
     (st, Some (Kill_try (Zero_positions (length (filter (\<lambda>p. p_quantity p \<noteq> 0) (positions st))))
                  request current_user open_orders active_strategies))"
| "advance (Kill_try (Zero_positions positions_closed) request current_user open_orders
              active_strategies) st =
     (st\<lparr>positions := map (\<lambda>p. p\<lparr>p_quantity := 0\<rparr>) (positions st)\<rparr>,
      Some (Kill_try (Halt_strategies positions_closed) request current_user open_orders
              active_strategies))"
| "advance (Kill_try (Halt_strategies positions_closed) request current_user open_orders
              active_strategies) st =
     (st\<lparr>strategies := map halt_active (strategies st)\<rparr>,
      Some (Kill_try (Set_kill_switch_active positions_closed) request current_user open_orders
              active_strategies))"
| "advance (Kill_try (Set_kill_switch_active positions_closed) request current_user open_orders
              active_strategies) st =
     (update_system_state ''kill_switch_active'' (JBool True) st,
      Some (Kill_try (Set_system_status positions_closed) request current_user open_orders
              active_strategies))"
| "advance (Kill_try (Set_system_status positions_closed) request current_user open_orders
              active_strategies) st =
     (update_system_state ''system_status'' (JStr ''EMERGENCY'') st,
      Some (Kill_try (Log_audit positions_closed) request current_user open_orders
              active_strategies))"
| "advance (Kill_try (Log_audit positions_closed) request current_user open_orders
              active_strategies) st =
     (log_audit ''risk-engine'' (u_id current_user) ''KILL_SWITCH_EXECUTE''
        ''system'' (Inl ''global'')
        (Some (JObj [(''open_orders'', JNum (real open_orders)),
                     (''active_strategies'', JNum (real active_strategies)),
                     (''kill_switch_active'', JBool False)]))
        (Some (JObj [(''open_orders'', JNum 0),
                     (''active_strategies'', JNum 0),
                     (''kill_switch_active'', JBool True),
                     (''positions_closed'', JNum (real positions_closed))]))
        st,
      Some (Kill_try (Broadcast_alert positions_closed) request current_user open_orders
              active_strategies))"
| "advance (Kill_try (Broadcast_alert positions_closed) request current_user open_orders
              active_strategies) st =
     (st\<lparr>broadcasts := broadcasts st @
            [KILL_SWITCH (''KILL SWITCH ACTIVATED by '' @ u_username current_user)
               (ks_reason request) open_orders positions_closed active_strategies]\<rparr>,
      Some (Kill_try (Publish_alert positions_closed) request current_user open_orders
              active_strategies))"
| "advance (Kill_try (Publish_alert positions_closed) request current_user open_orders
              active_strategies) st =
     (st\<lparr>published := published st @
            [(''system_alerts'',
              JObj [(''type'', JStr ''KILL_SWITCH''),
                    (''executed_by'', JStr (u_username current_user)),
                    (''reason'', JStr (ks_reason request))])]\<rparr>,
      None)"

text \<open>A statement that raises has no effect, and its exception ends the task: in the \<open>try\<close>
  block of the kill switch it is turned into HTTP 500, elsewhere nothing catches it.  Only
  \<open>broadcast_alert\<close> does not raise (it catches the failures of its sockets).\<close>

fun can_raise :: "task \<Rightarrow> bool" where
  "can_raise (Kill_try (Broadcast_alert positions_closed) request current_user open_orders
                active_strategies) = False"
| "can_raise t = True"

text \<open>A handler that runs alone: its task advances until it ends (\<open>n\<close> bounds the number of
  statements).\<close>

fun uninterrupted :: "nat \<Rightarrow> task option \<Rightarrow> state \<Rightarrow> state" where
  "uninterrupted n None st = st"
| "uninterrupted 0 (Some t) st = st"
| "uninterrupted (Suc n) (Some t) st =
     (case advance t st of (st', t') \<Rightarrow> uninterrupted n t' st')"

text \<open>
  The task of \<open>simulate_order_execution\<close>, which the gateway starts once, by the awaited call
  it is about to execute.  Its local variables are \<open>order\<close>, \<open>fill_qty\<close>, \<open>fill_price\<close>,
  \<open>existing_pos\<close> and the orders of the fetched list that the \<open>for\<close> loop has not reached;
  \<open>order\<close> and \<open>existing_pos\<close> are the rows as they were read, whatever has been written to
  the tables since.
\<close>

datatype simulator =
    Fetch_orders
  | Get_price order_row real "order_row list"
  | Insert_fill order_row real real "order_row list"
  | Update_order order_row real real "order_row list"
  | Select_position order_row real real "order_row list"
  | Write_position order_row real real "position_row option" "order_row list"
  | Count_open_orders
  | Set_open_count nat
  | Sleep

text \<open>The head of the \<open>for\<close> loop, which awaits nothing: the orders for which the draw is
  not below 0.3, or for which the drawn quantity is not positive, are passed over; the next
  \<open>await\<close> is the \<open>redis.get_json\<close> of the first order that gets a fill, or the count
  of the open orders that follows the loop.\<close>

fun next_fill :: "(uuid \<Rightarrow> real \<times> real) \<Rightarrow> order_row list \<Rightarrow> simulator" where
  "next_fill draws [] = Count_open_orders"
| "next_fill draws (order # rest) =
     (if fst (draws (o_id order)) < 0.3 then
        (let remaining = o_quantity order - o_filled_quantity order;
             fill_qty = uniform 0 remaining (snd (draws (o_id order)))
         in if fill_qty > 0 then Get_price order fill_qty rest else next_fill draws rest)
      else next_fill draws rest)"

text \<open>\<open>simulate\<close>: the awaited call of the simulator completes.  At most ten open orders are
  fetched (in the order of the table); the Redis key \<open>orders:open_count\<close> is not part of
  the state.  \<open>fadd\<close> is the float addition of \<open>float(existing_pos["quantity"]) + qty_change\<close>.\<close>

fun simulate ::
  "(real \<Rightarrow> real \<Rightarrow> real) \<Rightarrow> (uuid \<Rightarrow> real \<times> real) \<Rightarrow> simulator \<Rightarrow> state
    \<Rightarrow> state \<times> simulator" where
  "simulate fadd draws Fetch_orders st =
     (st, next_fill draws (take 10 (filter is_open (orders st))))"
| "simulate fadd draws (Get_price order fill_qty rest) st =
     (st, Insert_fill order fill_qty (fill_price_for order st) rest)"
| "simulate fadd draws (Insert_fill order fill_qty fill_price rest) st =
     (st\<lparr>fills := fills st @
            [\<lparr>f_order_id = o_id order, f_quantity = fill_qty, f_price = fill_price\<rparr>]\<rparr>,
      Update_order order fill_qty fill_price rest)"
| "simulate fadd draws (Update_order order fill_qty fill_price rest) st =
     (let new_filled = o_filled_quantity order + fill_qty;
          new_status = (if new_filled \<ge> o_quantity order then FILLED else PARTIAL);
          avg_price = fill_price
      in (st\<lparr>orders := map (set_filled (o_id order) new_filled avg_price new_status) (orders st)\<rparr>,
          Select_position order fill_qty fill_price rest))"
| "simulate fadd draws (Select_position order fill_qty fill_price rest) st =
     (st, Write_position order fill_qty fill_price
            (find (position_matches order) (positions st)) rest)"
| "simulate fadd draws (Write_position order fill_qty fill_price existing_pos rest) st =
     (let qty_change = (if o_side order = BUY then fill_qty else - fill_qty)
      in ((case existing_pos of
            Some pos \<Rightarrow>
              st\<lparr>positions :=
                    map (set_position (p_id pos) (fadd (p_quantity pos) qty_change) fill_price)
                      (positions st)\<rparr>
          | None \<Rightarrow>
              st\<lparr>positions := positions st @
                    [\<lparr>p_id = next_id st, p_strategy_id = o_strategy_id order,
                      p_symbol = o_symbol order, p_quantity = qty_change,
                      p_average_entry_price = Some fill_price,
                      p_current_price = Some fill_price\<rparr>],
                  next_id := Suc (next_id st)\<rparr>),
          next_fill draws rest))"
| "simulate fadd draws Count_open_orders st =
     (st, Set_open_count (length (filter is_open (orders st))))"
| "simulate fadd draws (Set_open_count n) st = (st, Sleep)"
| "simulate fadd draws Sleep st = (st, Fetch_orders)"

text \<open>The system: the state, the requests in flight and the simulator.  An event is the
  arrival of a request; the completion or the failure of the statement of a request in flight;
  the completion or the failure of the awaited call of the simulator, with the random numbers
  it draws before its next \<open>await\<close>; an iteration of the monitoring loop of the risk engine,
  whose statements read and write the mandates, the alerts and the sockets only; a tick of
  the market data service, which sets or lets expire the price of a symbol.  An exception in
  the simulator is caught by its \<open>except\<close> branch, which sleeps before the loop starts
  again.\<close>

datatype outcome = Completes | Raises

record system =
  store :: state
  requests :: "task list"
  simulator :: simulator

datatype event =
    Arrives request
  | Advances nat outcome
  | Simulates "uuid \<Rightarrow> real \<times> real" outcome
  | Monitors "nat \<times> (uuid \<rightharpoonup> real)"
  | MarketTick string "real option"

definition remove_nth :: "nat \<Rightarrow> 'a list \<Rightarrow> 'a list" where
  "remove_nth n xs = take n xs @ drop (Suc n) xs"

fun step :: "(real \<Rightarrow> real \<Rightarrow> real) \<Rightarrow> event \<Rightarrow> system \<Rightarrow> system" where
  "step fadd (Arrives request) sys =
     (case start request of
        None \<Rightarrow> sys
      | Some t \<Rightarrow> sys\<lparr>requests := requests sys @ [t]\<rparr>)"
| "step fadd (Advances n outcome) sys =
     (if n < length (requests sys) then
        (case outcome of
           Raises \<Rightarrow>
             if can_raise (requests sys ! n)
             then sys\<lparr>requests := remove_nth n (requests sys)\<rparr> else sys
         | Completes \<Rightarrow>
             (case advance (requests sys ! n) (store sys) of
                (st, None) \<Rightarrow> sys\<lparr>store := st, requests := remove_nth n (requests sys)\<rparr>
              | (st, Some t) \<Rightarrow> sys\<lparr>store := st, requests := (requests sys)[n := t]\<rparr>))
      else sys)"
| "step fadd (Simulates draws outcome) sys =
     (case outcome of
        Raises \<Rightarrow> sys\<lparr>simulator := Sleep\<rparr>
      | Completes \<Rightarrow>
          (case simulate fadd draws (simulator sys) (store sys) of
             (st, sim) \<Rightarrow> sys\<lparr>store := st, simulator := sim\<rparr>))"
| "step fadd (Monitors it) sys = sys\<lparr>store := risk_monitoring_iteration it (store sys)\<rparr>"
| "step fadd (MarketTick symbol price) sys =
     sys\<lparr>store := (store sys)\<lparr>prices := (prices (store sys))(symbol := price)\<rparr>\<rparr>"

definition run :: "(real \<Rightarrow> real \<Rightarrow> real) \<Rightarrow> event list \<Rightarrow> system \<Rightarrow> system" where
  "run fadd events sys = fold (step fadd) events sys"

text \<open>The system at rest on a state: no request in flight, the simulator about to fetch.\<close>

definition idle :: "state \<Rightarrow> system" where
  "idle st = \<lparr>store = st, requests = [], simulator = Fetch_orders\<rparr>"

text \<open>The events of a request that is served with nothing in between (a handler executes
  at most eleven statements), and of the simulator running on with the same draws.\<close>

definition served :: "request \<Rightarrow> event list" where
  "served request = Arrives request # replicate 11 (Advances 0 Completes)"

definition simulated :: "nat \<Rightarrow> (uuid \<Rightarrow> real \<times> real) \<Rightarrow> event list" where
  "simulated n draws = replicate n (Simulates draws Completes)"


section \<open>Notions used to state the properties of the monitor\<close>

text \<open>The alerts \<open>check_mandate\<close> emits for a fetched row, the row a check leaves in the table,
  and the mandates whose stored status is a given one.\<close>

definition emitted_alerts :: "mandate_row \<Rightarrow> alert_row list" where
  "emitted_alerts m =
     (case mandate_new_status m of
        (new_status, alert_severity) \<Rightarrow>
          if m_status m \<noteq> new_status
          then (case alert_severity of None \<Rightarrow> [] | Some sev \<Rightarrow> [mandate_alert m new_status sev])
          else [])"

definition checked :: "nat \<Rightarrow> mandate_row \<Rightarrow> mandate_row" where
  "checked now r =
     (if m_is_active r \<and> m_status r \<noteq> fst (mandate_new_status r)
      then r\<lparr>m_status := fst (mandate_new_status r), m_updated_at := now\<rparr> else r)"

definition check_row :: "nat \<Rightarrow> mandate_row list \<Rightarrow> mandate_row \<Rightarrow> mandate_row" where
  "check_row now ms r =
     (case find (\<lambda>m. m_id m = m_id r) ms of
        None \<Rightarrow> r
      | Some m \<Rightarrow> if m_status m \<noteq> fst (mandate_new_status m)
                  then r\<lparr>m_status := fst (mandate_new_status m), m_updated_at := now\<rparr> else r)"

definition persisted :: "uuid \<Rightarrow> mandate_status \<Rightarrow> state \<Rightarrow> bool" where
  "persisted i s st = (\<forall>r \<in> set (risk_mandates st). m_id r = i \<and> m_is_active r \<longrightarrow> m_status r = s)"

definition mandate_key :: "mandate_row \<Rightarrow> uuid \<times> mandate_status \<times> bool" where
  "mandate_key r = (m_id r, m_status r, m_is_active r)"


section \<open>Notions used to state the properties of orders and positions\<close>

text \<open>The condition the specification puts on an order: the filled quantity lies between 0
  and the requested quantity, and the status is FILLED exactly when the two are equal.  The
  part of it that no interleaving breaks: the bounds, and a FILLED order is filled entirely.\<close>

definition order_ok :: "order_row \<Rightarrow> bool" where
  "order_ok r =
     (0 \<le> o_filled_quantity r \<and> o_filled_quantity r \<le> o_quantity r
      \<and> ((o_status r = FILLED) = (o_filled_quantity r = o_quantity r)))"

definition order_bounded :: "order_row \<Rightarrow> bool" where
  "order_bounded r =
     (0 \<le> o_filled_quantity r \<and> o_filled_quantity r \<le> o_quantity r
      \<and> (o_status r = FILLED \<longrightarrow> o_filled_quantity r = o_quantity r))"

definition orders_ok :: "state \<Rightarrow> bool" where
  "orders_ok st = (\<forall>r \<in> set (orders st). 0 < o_quantity r \<longrightarrow> order_ok r)"

definition orders_bounded :: "state \<Rightarrow> bool" where
  "orders_bounded st = (\<forall>r \<in> set (orders st). 0 < o_quantity r \<longrightarrow> order_bounded r)"

text \<open>Identifiers are what the database makes them: primary keys are distinct, and all were
  drawn from the counter.\<close>

definition store_ok :: "state \<Rightarrow> bool" where
  "store_ok st =
     (distinct (map o_id (orders st)) \<and> distinct (map p_id (positions st))
      \<and> (\<forall>r \<in> set (orders st). o_id r < next_id st)
      \<and> (\<forall>p \<in> set (positions st). p_id p < next_id st)
      \<and> (\<forall>f \<in> set (fills st). f_order_id f < next_id st))"

text \<open>The draws of the simulator are fractions between 0 and 1.\<close>

fun draws_in_range :: "event \<Rightarrow> bool" where
  "draws_in_range (Simulates draws outcome) = (\<forall>i. 0 \<le> snd (draws i) \<and> snd (draws i) \<le> 1)"
| "draws_in_range e = True"

text \<open>\<open>cancel_order\<close> tests the status in one statement and cancels in the next, which
  names the order by its id only.  A run is unraced when no such \<open>UPDATE\<close> reaches an order
  that has become FILLED since the test.\<close>

fun cancels_filled :: "task \<Rightarrow> state \<Rightarrow> bool" where
  "cancels_filled (Cancel_update order_id current_user before_status) st =
     (\<exists>r \<in> set (orders st). o_id r = order_id \<and> o_status r = FILLED)"
| "cancels_filled t st = False"

fun late_cancel :: "event \<Rightarrow> system \<Rightarrow> bool" where
  "late_cancel (Advances n Completes) sys =
     (n < length (requests sys) \<and> cancels_filled (requests sys ! n) (store sys))"
| "late_cancel e sys = False"

fun unraced :: "(real \<Rightarrow> real \<Rightarrow> real) \<Rightarrow> event list \<Rightarrow> system \<Rightarrow> bool" where
  "unraced fadd [] sys = True"
| "unraced fadd (e # es) sys = (\<not> late_cancel e sys \<and> unraced fadd es (step fadd e sys))"

text \<open>The row of the table \<open>orders\<close> that has the id of the order the simulator holds.\<close>

definition stored :: "state \<Rightarrow> order_row \<Rightarrow> order_row option" where
  "stored st order = find (\<lambda>r. o_id r = o_id order) (orders st)"

text \<open>The tables of the execution gateway.\<close>

definition trading_tables ::
  "state \<Rightarrow> order_row list \<times> fill_row list \<times> position_row list \<times> uuid" where
  "trading_tables st = (orders st, fills st, positions st, next_id st)"

text \<open>The simulator is in the middle of a fill when the fill is in the table \<open>fills\<close> and the
  position is not written yet.  The fills applied are the fills of the table, without the last
  one while the simulator is in the middle of it.\<close>

fun mid_fill :: "simulator \<Rightarrow> bool" where
  "mid_fill (Update_order order fill_qty fill_price rest) = True"
| "mid_fill (Select_position order fill_qty fill_price rest) = True"
| "mid_fill (Write_position order fill_qty fill_price existing_pos rest) = True"
| "mid_fill sim = False"

definition applied_fills :: "system \<Rightarrow> fill_row list" where
  "applied_fills sys =
     (if mid_fill (simulator sys) then butlast (fills (store sys)) else fills (store sys))"

text \<open>The fills applied for a strategy and a symbol, in the order of their application, each
  with its signed quantity (positive for a BUY order, negative for a SELL order) and its price:
  the fills of the orders of that strategy for that symbol.\<close>

definition signed_quantity :: "order_row \<Rightarrow> real \<Rightarrow> real" where
  "signed_quantity order q = (if o_side order = BUY then q else - q)"

definition pair_fill :: "order_row list \<Rightarrow> uuid \<Rightarrow> string \<Rightarrow> fill_row \<Rightarrow> (real \<times> real) list" where
  "pair_fill rows s symb f =
     (case find (\<lambda>r. o_id r = f_order_id f) rows of
        None \<Rightarrow> []
      | Some r \<Rightarrow> if o_strategy_id r = Some s \<and> o_symbol r = symb
                  then [(signed_quantity r (f_quantity f), f_price f)] else [])"

definition pair_fills :: "system \<Rightarrow> uuid \<Rightarrow> string \<Rightarrow> (real \<times> real) list" where
  "pair_fills sys s symb =
     concat (map (pair_fill (orders (store sys)) s symb) (applied_fills sys))"

text \<open>The position of a strategy and a symbol: the quantity, the average entry price and the
  current price of its row, found as the simulator finds it.  And the position that a list of
  signed fills makes: none without a fill; the first fill creates it, with its price as entry
  and as current price; every further fill adds its signed quantity with \<open>fadd\<close> and sets the
  current price.\<close>

definition position_of :: "state \<Rightarrow> uuid \<Rightarrow> string \<Rightarrow> (real \<times> real option \<times> real option) option" where
  "position_of st s symb =
     map_option (\<lambda>p. (p_quantity p, p_average_entry_price p, p_current_price p))
       (find (\<lambda>p. p_strategy_id p = Some s \<and> p_symbol p = symb) (positions st))"

definition position_quantity :: "state \<Rightarrow> uuid \<Rightarrow> string \<Rightarrow> real" where
  "position_quantity st s symb =
     (case position_of st s symb of None \<Rightarrow> 0 | Some (quantity, entry, current) \<Rightarrow> quantity)"

definition apply_fill ::
  "(real \<Rightarrow> real \<Rightarrow> real) \<Rightarrow> (real \<times> real option \<times> real option) option \<Rightarrow> real \<times> real
    \<Rightarrow> (real \<times> real option \<times> real option) option" where
  "apply_fill fadd pos x =
     (case pos of
        None \<Rightarrow> Some (fst x, Some (snd x), Some (snd x))
      | Some (quantity, entry, current) \<Rightarrow> Some (fadd quantity (fst x), entry, Some (snd x)))"

definition replay ::
  "(real \<Rightarrow> real \<Rightarrow> real) \<Rightarrow> (real \<times> real) list \<Rightarrow> (real \<times> real option \<times> real option) option" where
  "replay fadd xs = foldl (apply_fill fadd) None xs"

definition positions_match :: "(real \<Rightarrow> real \<Rightarrow> real) \<Rightarrow> system \<Rightarrow> bool" where
  "positions_match fadd sys =
     (\<forall>s symb. position_of (store sys) s symb = replay fadd (pair_fills sys s symb))"

text \<open>What keeps a fill from reaching its position: the statement of a kill switch that
  sets the quantity of every position to 0, and an exception in the simulator while it is in
  the middle of a fill.  A run is undisturbed when neither happens.\<close>

fun zeroes_positions :: "task \<Rightarrow> bool" where
  "zeroes_positions (Kill_try (Zero_positions positions_closed) request current_user open_orders
                       active_strategies) = True"
| "zeroes_positions t = False"

fun disturbs :: "event \<Rightarrow> system \<Rightarrow> bool" where
  "disturbs (Advances n Completes) sys =
     (n < length (requests sys) \<and> zeroes_positions (requests sys ! n))"
| "disturbs (Simulates draws Raises) sys = mid_fill (simulator sys)"
| "disturbs e sys = False"

fun undisturbed :: "(real \<Rightarrow> real \<Rightarrow> real) \<Rightarrow> event list \<Rightarrow> system \<Rightarrow> bool" where
  "undisturbed fadd [] sys = True"
| "undisturbed fadd (e # es) sys = (\<not> disturbs e sys \<and> undisturbed fadd es (step fadd e sys))"

text \<open>The weighted-average entry price as the specification words it: the average of the
  prices of the fills of the pair, weighted by their quantities.\<close>

definition spec_average_entry_price :: "(real \<times> real) list \<Rightarrow> real" where
  "spec_average_entry_price xs =
     sum_list (map (\<lambda>x. fst x * snd x) xs) / sum_list (map fst xs)"


section \<open>Scenarios\<close>

text \<open>Concrete users, requests and stores, on which the handlers are evaluated below.\<close>

definition admin :: user_context where
  "admin = \<lparr>u_id = ''1'', u_username = ''root'', u_email = ''root@athena'', u_role = ''ADMIN''\<rparr>"

definition viewer :: user_context where
  "viewer = \<lparr>u_id = ''2'', u_username = ''guest'', u_email = ''guest@athena'',
             u_role = ''VIEWER''\<rparr>"

definition quant :: user_context where
  "quant = \<lparr>u_id = ''3'', u_username = ''ada'', u_email = ''ada@athena'', u_role = ''QUANT''\<rparr>"

definition fresh_store :: state where
  "fresh_store =
     \<lparr>orders = [], fills = [], positions = [],
      strategies = [\<lparr>s_id = 7, s_status = ACTIVE\<rparr>], risk_mandates = [],
      risk_alerts = [], audit_events = [],
      system_state = [''kill_switch_active'' \<mapsto> JBool False,
                      ''system_status'' \<mapsto> JStr ''NORMAL''],
      prices = [''AAPL'' \<mapsto> 50], broadcasts = [], published = [], next_id = 1\<rparr>"

definition buy_100 :: order_create where
  "buy_100 = \<lparr>oc_symbol = ''AAPL'', oc_side = BUY, oc_order_type = LIMIT, oc_quantity = 100,
      oc_price = Some 50, oc_stop_price = None, oc_strategy_id = Some 7\<rparr>"

definition drill :: kill_switch_request where
  "drill = \<lparr>ks_reason = ''drill'', ks_confirm = True\<rparr>"

definition dry_run :: kill_switch_request where
  "dry_run = \<lparr>ks_reason = ''dry run'', ks_confirm = False\<rparr>"

text \<open>An order for 100 is submitted, and an iteration of the simulator fills 60 of it.\<close>

definition first_fill :: "event list" where
  "first_fill = served (SendOrder buy_100 admin) @ simulated 9 (\<lambda>i. (1 / 10, 6 / 10))"

definition partial_store :: state where
  "partial_store = store (run (+) first_fill (idle fresh_store))"

text \<open>The store \<open>partial_store\<close> after a second order, which is PENDING.\<close>

definition busy_store :: state where
  "busy_store = snd (send_order buy_100 admin partial_store)"

text \<open>An order that was submitted and cancelled.\<close>

definition cancelled_store :: state where
  "cancelled_store = snd (cancel_order 1 admin (snd (send_order buy_100 admin fresh_store)))"

text \<open>The store after a confirmed kill switch.\<close>

definition halted_store :: state where
  "halted_store = snd (execute_kill_switch drill admin None fresh_store)"

definition unknown_symbol :: order_create where
  "unknown_symbol =
     \<lparr>oc_symbol = ''ZZZZ'', oc_side = SELL, oc_order_type = MARKET, oc_quantity = 5,
      oc_price = None, oc_stop_price = None, oc_strategy_id = None\<rparr>"

text \<open>A mandate whose hard limit is stored as 0.\<close>

definition zero_limit_mandate :: mandate_row where
  "zero_limit_mandate =
     \<lparr>m_id = 1, m_mandate_id = ''M1'', m_description = ''Net exposure'',
      m_soft_limit = None, m_hard_limit = Some 0, m_current_value = Some 5,
      m_status = OK, m_is_active = True, m_updated_at = 0\<rparr>"

text \<open>The mandate of the scenario of the specification (soft limit 100, hard limit 150, current
  value 90), the same mandate with BREACH as stored status, iterations of the monitor in which
  the value rises from 90 to 110 and 160, and iterations in which it stays above the hard
  limit.\<close>

definition exposure_mandate :: mandate_row where
  "exposure_mandate =
     \<lparr>m_id = 1, m_mandate_id = ''M1'', m_description = ''Net exposure'',
      m_soft_limit = Some 100, m_hard_limit = Some 150, m_current_value = Some 90,
      m_status = OK, m_is_active = True, m_updated_at = 0\<rparr>"

definition mandate_store :: state where
  "mandate_store = fresh_store\<lparr>risk_mandates := [exposure_mandate]\<rparr>"

definition recovering_mandate :: mandate_row where
  "recovering_mandate = exposure_mandate\<lparr>m_status := BREACH\<rparr>"

definition recovering_store :: state where
  "recovering_store = fresh_store\<lparr>risk_mandates := [recovering_mandate]\<rparr>"

definition breach_iterations :: "(nat \<times> (uuid \<rightharpoonup> real)) list" where
  "breach_iterations = [(1, [1 \<mapsto> 160]), (2, [1 \<mapsto> 170]), (3, [1 \<mapsto> 180])]"

definition rising_iterations :: "(nat \<times> (uuid \<rightharpoonup> real)) list" where
  "rising_iterations = [(1, Map.empty), (2, [1 \<mapsto> 110]), (3, [1 \<mapsto> 160])]"

text \<open>The order of \<open>partial_store\<close>; the events that fill its remainder at a new price, and
  the system they lead to; the same fill with a request to cancel the order around it: the
  order is read before the fill and cancelled after it; a fill whose third statement fails;
  orders for a quantity that is not positive; an order without an owning strategy.\<close>

definition partial_order :: order_row where
  "partial_order =
     \<lparr>o_id = 1, o_strategy_id = Some 7, o_symbol = ''AAPL'', o_side = BUY,
      o_order_type = LIMIT, o_quantity = 100, o_price = Some 50, o_stop_price = None,
      o_filled_quantity = 60, o_average_fill_price = Some 50, o_status = PARTIAL,
      o_created_by = ''1''\<rparr>"

definition closing_events :: "event list" where
  "closing_events = MarketTick ''AAPL'' (Some 51) # simulated 9 (\<lambda>i. (1 / 10, 1))"

definition filled_system :: system where
  "filled_system = run (+) closing_events (idle partial_store)"

definition racing_cancel :: "event list" where
  "racing_cancel =
     [Arrives (CancelOrder 1 admin), Advances 0 Completes]
     @ simulated 4 (\<lambda>i. (1 / 10, 1))
     @ [Advances 0 Completes, Advances 0 Completes]
     @ simulated 5 (\<lambda>i. (1 / 10, 1))"

definition failing_fill :: "event list" where
  "failing_fill =
     served (SendOrder buy_100 admin) @ simulated 3 (\<lambda>i. (1 / 10, 6 / 10))
     @ [Simulates (\<lambda>i. (1 / 10, 6 / 10)) Raises]"

definition zero_order :: order_create where
  "zero_order = buy_100\<lparr>oc_quantity := 0\<rparr>"

definition negative_order :: order_create where
  "negative_order = buy_100\<lparr>oc_quantity := - 5\<rparr>"

definition orphan_order :: order_create where
  "orphan_order = buy_100\<lparr>oc_strategy_id := None\<rparr>"

definition orphan_fills :: "event list" where
  "orphan_fills =
     served (SendOrder orphan_order admin) @ simulated 9 (\<lambda>i. (1 / 10, 6 / 10))
     @ simulated 9 (\<lambda>i. (1 / 10, 1))"

section \<open>Properties\<close>

lemmas scenario_defs = admin_def viewer_def fresh_store_def buy_100_def drill_def dry_run_def

lemmas system_defs = run_def idle_def served_def simulated_def remove_nth_def
  eval_nat_numeral

lemmas gateway_defs = send_order_def log_audit_def kill_switch_active_def equals_True_def
  truthy_def is_open_def uniform_def fill_price_for_def position_matches_def set_filled_def
  set_position_def dumps_if_def

lemmas kill_switch_defs = execute_kill_switch_def kill_switch_try_def raises_def
  exception_text_def cancel_pending_open_def halt_active_def update_system_state_def
  require_permission_def has_permission_def ROLE_PERMISSIONS_def

lemma partial_store_value:
  "partial_store =
     \<lparr>orders =
        [\<lparr>o_id = 1, o_strategy_id = Some 7, o_symbol = ''AAPL'', o_side = BUY,
          o_order_type = LIMIT, o_quantity = 100, o_price = Some 50,
          o_stop_price = None, o_filled_quantity = 60,
          o_average_fill_price = Some 50, o_status = PARTIAL, o_created_by = ''1''\<rparr>],
      fills = [\<lparr>f_order_id = 1, f_quantity = 60, f_price = 50\<rparr>],
      positions =
        [\<lparr>p_id = 2, p_strategy_id = Some 7, p_symbol = ''AAPL'', p_quantity = 60,
          p_average_entry_price = Some 50, p_current_price = Some 50\<rparr>],
      strategies = [\<lparr>s_id = 7, s_status = ACTIVE\<rparr>], risk_mandates = [], risk_alerts = [],
      audit_events =
        [\<lparr>au_user_id = Some ''1'', au_service = ''execution-gateway'',
          au_action = ''ORDER_SUBMIT'', au_resource_type = ''order'',
          au_resource_id = Inr 1, au_before_state = None,
          au_after_state =
            Some (JObj [(''symbol'', JStr ''AAPL''), (''side'', JStr ''BUY''),
                        (''quantity'', JNum 100), (''type'', JStr ''LIMIT'')])\<rparr>],
      system_state = [''kill_switch_active'' \<mapsto> JBool False,
                      ''system_status'' \<mapsto> JStr ''NORMAL''],
      prices = [''AAPL'' \<mapsto> 50], broadcasts = [], published = [], next_id = 3\<rparr>"
  by (simp add: partial_store_def first_fill_def scenario_defs system_defs gateway_defs)

subsection \<open>Kill switch\<close>

lemma admin_may_kill: "has_permission (u_role admin) ''kill_switch''"
  by (simp add: has_permission_def ROLE_PERMISSIONS_def admin_def)

lemma only_admin_may_kill: "has_permission role ''kill_switch'' = (role = ''ADMIN'')"
  by (simp add: has_permission_def ROLE_PERMISSIONS_def)

text \<open>
  C1 (the code departs from the claim).  The claim: a confirmed kill switch moves every
  order whose status is PENDING, OPEN or PARTIAL to CANCELLED, so that no order is left in a
  non-terminal status.  The statement of \<open>execute_kill_switch\<close> cancels the orders
  \<open>WHERE status IN ('PENDING', 'OPEN')\<close> only, whereas \<open>cancel_all_orders\<close> and the simulator
  count PARTIAL among the open orders.  Evaluated on a store whose only order is PARTIAL, the
  confirmed kill switch succeeds, reports no order cancelled, raises the halt flag, and the
  order is PARTIAL afterwards.
\<close>

theorem kill_switch_leaves_partial_order:
  "map o_status (orders partial_store) = [PARTIAL]
   \<and> fst (execute_kill_switch drill admin None partial_store) =
       Inr \<lparr>ksr_success = True, ksr_orders_cancelled = 0, ksr_positions_closed = 1,
            ksr_message = ''Kill switch executed. Reason: drill''\<rparr>
   \<and> kill_switch_active (snd (execute_kill_switch drill admin None partial_store))
   \<and> map o_status (orders (snd (execute_kill_switch drill admin None partial_store)))
       = [PARTIAL]"
  by (simp add: partial_store_value kill_switch_defs log_audit_def drill_def admin_def
      kill_switch_active_def equals_True_def)

text \<open>
  C6 (corrected).  The claim: a kill switch that is not confirmed is rejected with
  NotConfirmed, without side effects.  The permission is tested before the confirmation: the
  dependency \<open>require_permission("kill_switch")\<close> of the endpoint raises before the body runs.
  Only the role ADMIN has the permission, so the unconfirmed request of a viewer, and of a
  quant, is answered with HTTP 403 "Access denied. Missing permission: kill_switch" and not
  with the HTTP 400 "Kill switch must be explicitly confirmed" that is the NotConfirmed of the
  specification.
\<close>

theorem unconfirmed_kill_switch_of_viewer:
  "\<not> ks_confirm dry_run
   \<and> execute_kill_switch dry_run viewer None partial_store =
       (Inl (HTTPException 403 ''Access denied. Missing permission: kill_switch''),
        partial_store)
   \<and> execute_kill_switch dry_run quant None partial_store =
       (Inl (HTTPException 403 ''Access denied. Missing permission: kill_switch''),
        partial_store)"
  by (simp add: execute_kill_switch_def require_permission_def has_permission_def
      ROLE_PERMISSIONS_def dry_run_def viewer_def quant_def)

text \<open>
  C6, as amended.  A kill switch that is not confirmed is rejected, and the whole state is
  returned as it was: no row of any table is changed, nothing is broadcast, published or
  audited.  The rejection is HTTP 400 "Kill switch must be explicitly confirmed"
  (NotConfirmed) when the caller has the permission \<open>kill_switch\<close>, and HTTP 403 "Access
  denied. Missing permission: kill_switch" when the caller lacks it.  Neither depends on a
  failure of the database, which no statement of the request reaches.
\<close>

theorem kill_switch_not_confirmed:
  "\<not> ks_confirm request \<Longrightarrow>
     execute_kill_switch request user fault st =
       (Inl (if has_permission (u_role user) ''kill_switch''
             then HTTPException 400 ''Kill switch must be explicitly confirmed''
             else HTTPException 403 ''Access denied. Missing permission: kill_switch''),
        st)"
  by (simp add: execute_kill_switch_def require_permission_def)

theorem kill_switch_not_confirmed_witness:
  "\<not> ks_confirm dry_run
   \<and> execute_kill_switch dry_run admin (Some (8, ''connection lost'')) partial_store =
       (Inl (HTTPException 400 ''Kill switch must be explicitly confirmed''), partial_store)
   \<and> execute_kill_switch dry_run viewer None partial_store =
       (Inl (HTTPException 403 ''Access denied. Missing permission: kill_switch''),
        partial_store)"
proof -
  have c: "\<not> ks_confirm dry_run" by (simp add: dry_run_def)
  have v: "\<not> has_permission (u_role viewer) ''kill_switch''"
    by (simp add: only_admin_may_kill viewer_def)
  from kill_switch_not_confirmed [OF c, of admin "Some (8, ''connection lost'')" partial_store]
    admin_may_kill
  have 1: "execute_kill_switch dry_run admin (Some (8, ''connection lost'')) partial_store =
       (Inl (HTTPException 400 ''Kill switch must be explicitly confirmed''), partial_store)"
    by simp
  from kill_switch_not_confirmed [OF c, of viewer None partial_store] v
  have 2: "execute_kill_switch dry_run viewer None partial_store =
       (Inl (HTTPException 403 ''Access denied. Missing permission: kill_switch''),
        partial_store)"
    by simp
  from c 1 2 show ?thesis by blast
qed

lemma update_system_state_tables:
  "orders (update_system_state k v st) = orders st"
  "positions (update_system_state k v st) = positions st"
  "strategies (update_system_state k v st) = strategies st"
  by (simp_all add: update_system_state_def split: option.splits)

lemma kill_switch_active_raised:
  "kill_switch_active (update_system_state ''kill_switch_active'' (JBool True) st)
     = (system_state st ''kill_switch_active'' \<noteq> None)"
  by (auto simp add: update_system_state_def kill_switch_active_def equals_True_def
      split: option.splits)

lemma kill_switch_active_system_status:
  "kill_switch_active (update_system_state ''system_status'' v st) = kill_switch_active st"
  by (simp add: update_system_state_def kill_switch_active_def split: option.splits)

lemma kill_switch_active_cong:
  "system_state st' = system_state st \<Longrightarrow> kill_switch_active st' = kill_switch_active st"
  by (simp add: kill_switch_active_def)

lemmas try_defs = execute_kill_switch_def require_permission_def kill_switch_try_def raises_def
  exception_text_def Let_def

lemma busy_store_tables:
  "map o_status (orders busy_store) = [PARTIAL, PENDING]"
  "map p_quantity (positions busy_store) = [60]"
  "system_state busy_store = [''kill_switch_active'' \<mapsto> JBool False,
                              ''system_status'' \<mapsto> JStr ''NORMAL'']"
  by (simp_all add: busy_store_def partial_store_value send_order_def admin_def buy_100_def
      kill_switch_active_def equals_True_def log_audit_def truthy_def)

text \<open>
  C2 (corrected).  The claim: when a step of the confirmed kill switch fails, the operation
  is reported failed, the halt flag stays unset, no order is cancelled and no position is
  zeroed.  The handler does report the failure, but each of its statements is executed and
  committed on its own (\<open>Database.execute\<close> takes a connection of the pool for one statement;
  the \<open>transaction\<close> helper of the database module is used nowhere).  When the audit record
  cannot be written, the store \<open>busy_store\<close> ends with its PENDING order cancelled, its
  position zeroed and the halt flag raised, and the caller gets HTTP 500.
\<close>

theorem kill_switch_failure_not_rolled_back:
  "map o_status (orders busy_store) = [PARTIAL, PENDING]
   \<and> map p_quantity (positions busy_store) = [60]
   \<and> \<not> kill_switch_active busy_store
   \<and> fst (execute_kill_switch drill admin (Some (6, ''connection lost'')) busy_store)
       = Inl (HTTPException 500 ''Kill switch failed: connection lost'')
   \<and> map o_status
        (orders (snd (execute_kill_switch drill admin (Some (6, ''connection lost'')) busy_store)))
       = [PARTIAL, CANCELLED]
   \<and> map p_quantity
        (positions (snd (execute_kill_switch drill admin (Some (6, ''connection lost'')) busy_store)))
       = [0]
   \<and> kill_switch_active
        (snd (execute_kill_switch drill admin (Some (6, ''connection lost'')) busy_store))"
  by (simp add: busy_store_def partial_store_value kill_switch_defs scenario_defs gateway_defs)

text \<open>
  C2, as amended.  The caller has the permission and has confirmed.  When the \<open>k\<close>-th
  statement of the \<open>try\<close> block fails, the operation is reported failed (HTTP 500, "Kill
  switch failed: ..."), and the statements completed before it keep their effect.  The state
  is unchanged only when the first statement fails (\<open>k = 0\<close>); from the second on, the PENDING
  and OPEN orders are cancelled; the positions are untouched up to the statement that zeroes
  them (\<open>k \<le> 2\<close>) and zeroed after it; the system state is untouched up to the statement that
  raises the halt flag (\<open>k \<le> 4\<close>), and after it the flag is raised whenever the table has its
  row.  When one of the two counts that precede the \<open>try\<close> block fails (\<open>k = 8\<close>, \<open>k = 9\<close>),
  the request ends with the exception of the count, and the state is unchanged.
\<close>

theorem kill_switch_failure_keeps_completed_statements:
  assumes "has_permission (u_role current_user) ''kill_switch''"
    and "ks_confirm request" and "fault = Some (k, e)"
  shows "(k \<le> 7 \<longrightarrow>
           fst (execute_kill_switch request current_user fault st)
             = Inl (HTTPException 500 (''Kill switch failed: '' @ e))
         \<and> (k = 0 \<longrightarrow> snd (execute_kill_switch request current_user fault st) = st)
         \<and> (1 \<le> k \<longrightarrow> orders (snd (execute_kill_switch request current_user fault st))
                          = map cancel_pending_open (orders st))
         \<and> (k \<le> 2 \<longrightarrow> positions (snd (execute_kill_switch request current_user fault st))
                          = positions st)
         \<and> (3 \<le> k \<longrightarrow> positions (snd (execute_kill_switch request current_user fault st))
                          = map (\<lambda>p. p\<lparr>p_quantity := 0\<rparr>) (positions st))
         \<and> (k \<le> 4 \<longrightarrow> system_state (snd (execute_kill_switch request current_user fault st))
                          = system_state st)
         \<and> (5 \<le> k \<longrightarrow> kill_switch_active (snd (execute_kill_switch request current_user fault st))
                          = (system_state st ''kill_switch_active'' \<noteq> None)))
       \<and> (k = 8 \<or> k = 9 \<longrightarrow>
            execute_kill_switch request current_user fault st = (Inl (Exception e), st))"
proof -
  let ?r = "execute_kill_switch request current_user fault st"
  have low: "fst ?r = Inl (HTTPException 500 (''Kill switch failed: '' @ e))
         \<and> (k = 0 \<longrightarrow> snd ?r = st)
         \<and> (1 \<le> k \<longrightarrow> orders (snd ?r) = map cancel_pending_open (orders st))
         \<and> (k \<le> 2 \<longrightarrow> positions (snd ?r) = positions st)
         \<and> (3 \<le> k \<longrightarrow> positions (snd ?r) = map (\<lambda>p. p\<lparr>p_quantity := 0\<rparr>) (positions st))
         \<and> (k \<le> 4 \<longrightarrow> system_state (snd ?r) = system_state st)
         \<and> (5 \<le> k \<longrightarrow> kill_switch_active (snd ?r)
                          = (system_state st ''kill_switch_active'' \<noteq> None))"
    if "k \<le> 7"
  proof -
    from that
    consider "k = 0" | "k = 1" | "k = 2" | "k = 3" | "k = 4" | "k = 5" | "k = 6" | "k = 7"
      by linarith
    then show ?thesis
    proof cases
      case 1 with assms show ?thesis by (simp add: try_defs)
    next
      case 2 with assms show ?thesis by (simp add: try_defs)
    next
      case 3 with assms show ?thesis by (simp add: try_defs)
    next
      case 4 with assms show ?thesis by (simp add: try_defs)
    next
      case 5 with assms show ?thesis by (simp add: try_defs)
    next
      case 6 with assms show ?thesis
        by (simp add: try_defs update_system_state_tables kill_switch_active_raised)
    next
      case 7 with assms show ?thesis
        by (simp add: try_defs update_system_state_tables kill_switch_active_raised
            kill_switch_active_system_status)
    next
      case 8 with assms show ?thesis
        by (simp add: try_defs update_system_state_tables kill_switch_active_raised
            kill_switch_active_system_status log_audit_def kill_switch_active_cong)
    qed
  qed
  have high: "?r = (Inl (Exception e), st)" if "k = 8 \<or> k = 9"
    using that assms by (auto simp add: try_defs)
  from low high show ?thesis by blast
qed

theorem kill_switch_failure_keeps_completed_statements_witness:
  "fst (execute_kill_switch drill admin (Some (2, ''timeout'')) busy_store)
     = Inl (HTTPException 500 ''Kill switch failed: timeout'')
   \<and> orders (snd (execute_kill_switch drill admin (Some (2, ''timeout'')) busy_store))
       = map cancel_pending_open (orders busy_store)
   \<and> positions (snd (execute_kill_switch drill admin (Some (2, ''timeout'')) busy_store))
       = positions busy_store
   \<and> system_state (snd (execute_kill_switch drill admin (Some (2, ''timeout'')) busy_store))
       = system_state busy_store
   \<and> snd (execute_kill_switch drill admin (Some (0, ''timeout'')) busy_store) = busy_store
   \<and> positions (snd (execute_kill_switch drill admin (Some (6, ''timeout'')) busy_store))
       = map (\<lambda>p. p\<lparr>p_quantity := 0\<rparr>) (positions busy_store)
   \<and> kill_switch_active (snd (execute_kill_switch drill admin (Some (6, ''timeout'')) busy_store))
   \<and> execute_kill_switch drill admin (Some (9, ''timeout'')) busy_store
       = (Inl (Exception ''timeout''), busy_store)"
proof -
  have c: "ks_confirm drill" by (simp add: drill_def)
  have r: "system_state busy_store ''kill_switch_active'' \<noteq> None"
    by (simp add: busy_store_tables)
  from kill_switch_failure_keeps_completed_statements
         [OF admin_may_kill c refl, where k = 2 and e = "''timeout''" and st = busy_store]
  have 1: "fst (execute_kill_switch drill admin (Some (2, ''timeout'')) busy_store)
     = Inl (HTTPException 500 ''Kill switch failed: timeout'')
   \<and> orders (snd (execute_kill_switch drill admin (Some (2, ''timeout'')) busy_store))
       = map cancel_pending_open (orders busy_store)
   \<and> positions (snd (execute_kill_switch drill admin (Some (2, ''timeout'')) busy_store))
       = positions busy_store
   \<and> system_state (snd (execute_kill_switch drill admin (Some (2, ''timeout'')) busy_store))
       = system_state busy_store"
    by simp
  from kill_switch_failure_keeps_completed_statements
         [OF admin_may_kill c refl, where k = 0 and e = "''timeout''" and st = busy_store]
  have 2: "snd (execute_kill_switch drill admin (Some (0, ''timeout'')) busy_store) = busy_store"
    by simp
  from kill_switch_failure_keeps_completed_statements
         [OF admin_may_kill c refl, where k = 6 and e = "''timeout''" and st = busy_store] r
  have 3: "positions (snd (execute_kill_switch drill admin (Some (6, ''timeout'')) busy_store))
       = map (\<lambda>p. p\<lparr>p_quantity := 0\<rparr>) (positions busy_store)
   \<and> kill_switch_active (snd (execute_kill_switch drill admin (Some (6, ''timeout'')) busy_store))"
    by simp
  from kill_switch_failure_keeps_completed_statements
         [OF admin_may_kill c refl, where k = 9 and e = "''timeout''" and st = busy_store]
  have 4: "execute_kill_switch drill admin (Some (9, ''timeout'')) busy_store
       = (Inl (Exception ''timeout''), busy_store)"
    by simp
  from 1 2 3 4 show ?thesis by blast
qed

subsection \<open>Mandate evaluation\<close>

text \<open>
  C4 (corrected).  The claim: the status is BREACH when a hard limit is set and breached,
  else WARNING when a soft limit is set and breached, else OK.  As stated it fails for a limit
  that is stored as 0: the mandate \<open>zero_limit_mandate\<close> has the hard limit 0 and the current
  value 5, so the limit is set and \<open>|5| \<ge> |0|\<close>, but the code computes OK without a severity.
\<close>

theorem zero_hard_limit_not_breached:
  "mandate_new_status zero_limit_mandate = (OK, None)
   \<and> spec_mandate_status zero_limit_mandate = (BREACH, Some CRITICAL)"
  by (simp add: mandate_new_status_def spec_mandate_status_def truthy_def
      zero_limit_mandate_def)

text \<open>
  C4, as amended.  The new status and the severity are a function of the current value (0
  when it is NULL) and of the two limits alone, where a limit counts only when it is set and
  is not zero: BREACH with severity CRITICAL when such a hard limit is reached in absolute
  value; else WARNING with severity WARNING when such a soft limit is reached; else OK
  without a severity.
\<close>

theorem mandate_status_priority:
  "mandate_new_status m =
     (let c = (case m_current_value m of Some v \<Rightarrow> v | None \<Rightarrow> 0)
      in if (case m_hard_limit m of Some h \<Rightarrow> h \<noteq> 0 \<and> \<bar>h\<bar> \<le> \<bar>c\<bar> | None \<Rightarrow> False)
         then (BREACH, Some CRITICAL)
         else if (case m_soft_limit m of Some s \<Rightarrow> s \<noteq> 0 \<and> \<bar>s\<bar> \<le> \<bar>c\<bar> | None \<Rightarrow> False)
         then (WARNING, Some WARNING_SEVERITY)
         else (OK, None))"
  by (simp add: mandate_new_status_def truthy_def Let_def split: option.splits)

text \<open>
  C10.  A hard or a soft limit stored as 0 is evaluated exactly as a limit that is NULL, and
  a current value that is NULL exactly as the current value 0; in particular a mandate whose
  hard limit is 0 never evaluates to BREACH.
\<close>

theorem zero_limit_treated_as_unset:
  "mandate_new_status (m\<lparr>m_hard_limit := Some 0\<rparr>) = mandate_new_status (m\<lparr>m_hard_limit := None\<rparr>)
   \<and> mandate_new_status (m\<lparr>m_soft_limit := Some 0\<rparr>) = mandate_new_status (m\<lparr>m_soft_limit := None\<rparr>)
   \<and> mandate_new_status (m\<lparr>m_current_value := None\<rparr>)
       = mandate_new_status (m\<lparr>m_current_value := Some 0\<rparr>)
   \<and> fst (mandate_new_status (m\<lparr>m_hard_limit := Some 0\<rparr>)) \<noteq> BREACH"
  by (simp add: mandate_new_status_def truthy_def Let_def split: option.splits)

subsection \<open>Order submission and cancellation\<close>

lemma halted_store_active: "kill_switch_active halted_store"
  by (simp add: halted_store_def scenario_defs kill_switch_defs log_audit_def
      kill_switch_active_def equals_True_def)

text \<open>
  C5 (corrected).  The claim: while the halt flag is set, every order request is rejected
  with HaltActive.  \<open>send_order\<close> tests the role of the caller before the halt flag: on the
  halted store the request of a viewer is rejected with "Viewers cannot submit orders" (the
  Forbidden of the specification), not with "Trading suspended - Kill switch active".
\<close>

theorem viewer_forbidden_while_halted:
  "kill_switch_active halted_store
   \<and> send_order buy_100 viewer halted_store
       = (Inl (HTTPException 403 ''Viewers cannot submit orders''), halted_store)"
  by (simp add: halted_store_active) (simp add: send_order_def viewer_def)

text \<open>
  C5, as amended.  \<open>send_order\<close> rejects a request in this order: a caller whose role is
  VIEWER gets HTTP 403 "Viewers cannot submit orders" (Forbidden); any other caller, while
  the halt flag is set, gets HTTP 403 "Trading suspended - Kill switch active" (HaltActive);
  any other caller, while the flag is not set and the symbol has no reference price, gets
  HTTP 400 "Unknown symbol: ..." (UnknownSymbol).  So every request made while the halt flag
  is set is rejected, and every rejection returns the state as it was: no order is created.
\<close>

theorem send_order_rejections:
  "(u_role current_user = ''VIEWER'' \<longrightarrow>
      send_order order current_user st
        = (Inl (HTTPException 403 ''Viewers cannot submit orders''), st))
   \<and> (u_role current_user \<noteq> ''VIEWER'' \<and> kill_switch_active st \<longrightarrow>
      send_order order current_user st
        = (Inl (HTTPException 403 ''Trading suspended - Kill switch active''), st))
   \<and> (u_role current_user \<noteq> ''VIEWER'' \<and> \<not> kill_switch_active st
        \<and> prices st (oc_symbol order) = None \<longrightarrow>
      send_order order current_user st
        = (Inl (HTTPException 400 (''Unknown symbol: '' @ oc_symbol order)), st))
   \<and> (kill_switch_active st \<longrightarrow> isl (fst (send_order order current_user st)))
   \<and> (isl (fst (send_order order current_user st)) \<longrightarrow>
        snd (send_order order current_user st) = st)"
  by (simp add: send_order_def Let_def split: option.splits)

theorem send_order_rejections_witness:
  "send_order buy_100 viewer fresh_store
     = (Inl (HTTPException 403 ''Viewers cannot submit orders''), fresh_store)
   \<and> send_order buy_100 admin halted_store
       = (Inl (HTTPException 403 ''Trading suspended - Kill switch active''), halted_store)
   \<and> send_order unknown_symbol admin fresh_store
       = (Inl (HTTPException 400 ''Unknown symbol: ZZZZ''), fresh_store)"
proof -
  have v: "u_role viewer = ''VIEWER''" and a: "u_role admin \<noteq> ''VIEWER''"
    by (simp_all add: viewer_def admin_def)
  have n: "\<not> kill_switch_active fresh_store"
    by (simp add: fresh_store_def kill_switch_active_def equals_True_def)
  have p: "prices fresh_store (oc_symbol unknown_symbol) = None"
    by (simp add: fresh_store_def unknown_symbol_def)
  have s: "''Unknown symbol: '' @ oc_symbol unknown_symbol = ''Unknown symbol: ZZZZ''"
    by (simp add: unknown_symbol_def)
  from send_order_rejections [where current_user = viewer and order = buy_100 and st = fresh_store] v
  have 1: "send_order buy_100 viewer fresh_store
             = (Inl (HTTPException 403 ''Viewers cannot submit orders''), fresh_store)"
    by blast
  from send_order_rejections [where current_user = admin and order = buy_100 and st = halted_store] a halted_store_active
  have 2: "send_order buy_100 admin halted_store
             = (Inl (HTTPException 403 ''Trading suspended - Kill switch active''), halted_store)"
    by blast
  from send_order_rejections
         [where current_user = admin and order = unknown_symbol and st = fresh_store] a n p
  have "send_order unknown_symbol admin fresh_store
          = (Inl (HTTPException 400 (''Unknown symbol: '' @ oc_symbol unknown_symbol)),
             fresh_store)"
    by blast
  with s have 3: "send_order unknown_symbol admin fresh_store
                    = (Inl (HTTPException 400 ''Unknown symbol: ZZZZ''), fresh_store)"
    by simp
  from 1 2 3 show ?thesis by blast
qed

lemma cancelled_store_orders:
  "orders cancelled_store =
     [\<lparr>o_id = 1, o_strategy_id = Some 7, o_symbol = ''AAPL'', o_side = BUY,
       o_order_type = LIMIT, o_quantity = 100, o_price = Some 50, o_stop_price = None,
       o_filled_quantity = 0, o_average_fill_price = None, o_status = CANCELLED,
       o_created_by = ''1''\<rparr>]"
  by (simp add: cancelled_store_def scenario_defs gateway_defs cancel_order_def cancel_by_id_def)

text \<open>
  C7 (corrected).  The claim: cancelling an order that is already cancelled returns a
  signal of its own, AlreadyTerminal, which is not an error.  \<open>cancel_order\<close> has no such
  answer: for the cancelled order of \<open>cancelled_store\<close> it raises the HTTP 400 exception
  "Cannot cancel order with status: CANCELLED", the error it raises for every terminal order.
\<close>

theorem cancel_cancelled_order_is_error:
  "map o_status (orders cancelled_store) = [CANCELLED]
   \<and> cancel_order 1 admin cancelled_store
       = (Inl (HTTPException 400 ''Cannot cancel order with status: CANCELLED''),
          cancelled_store)"
  by (simp add: cancel_order_def cancelled_store_orders admin_def)

text \<open>
  C7, as amended.  Cancelling an order whose status is FILLED, CANCELLED or REJECTED is
  rejected with an error and leaves the state unchanged: HTTP 400 "Cannot cancel order with
  status: ..." (HTTP 403 when the caller is a viewer).  Repeating the cancellation gives the
  same error and the same state again.
\<close>

theorem cancel_terminal_order_rejected:
  "find (\<lambda>r. o_id r = order_id) (orders st) = Some order \<Longrightarrow>
   o_status order \<in> {FILLED, CANCELLED, REJECTED} \<Longrightarrow>
     cancel_order order_id current_user st =
       (Inl (if u_role current_user = ''VIEWER''
             then HTTPException 403 ''Viewers cannot cancel orders''
             else HTTPException 400
                    (''Cannot cancel order with status: '' @ order_status_str (o_status order))),
        st)"
  by (auto simp add: cancel_order_def)

theorem cancel_terminal_order_rejected_witness:
  "cancel_order 1 viewer cancelled_store
     = (Inl (HTTPException 403 ''Viewers cannot cancel orders''), cancelled_store)
   \<and> cancel_order 1 admin cancelled_store
       = (Inl (HTTPException 400 ''Cannot cancel order with status: CANCELLED''),
          cancelled_store)"
proof -
  have f: "find (\<lambda>r. o_id r = 1) (orders cancelled_store) = Some (hd (orders cancelled_store))"
    by (simp add: cancelled_store_orders)
  have t: "o_status (hd (orders cancelled_store)) \<in> {FILLED, CANCELLED, REJECTED}"
    by (simp add: cancelled_store_orders)
  have c: "o_status (hd (orders cancelled_store)) = CANCELLED"
    by (simp add: cancelled_store_orders)
  from cancel_terminal_order_rejected [OF f t, where current_user = viewer]
  have 1: "cancel_order 1 viewer cancelled_store
     = (Inl (HTTPException 403 ''Viewers cannot cancel orders''), cancelled_store)"
    by (simp add: viewer_def)
  from cancel_terminal_order_rejected [OF f t, where current_user = admin] c
  have 2: "cancel_order 1 admin cancelled_store
       = (Inl (HTTPException 400 ''Cannot cancel order with status: CANCELLED''),
          cancelled_store)"
    by (simp add: admin_def)
  from 1 2 show ?thesis ..
qed

subsection \<open>Mandate monitor\<close>

lemma new_status_update [simp]:
  "mandate_new_status (r\<lparr>m_status := s, m_updated_at := t\<rparr>) = mandate_new_status r"
  by (simp add: mandate_new_status_def Let_def)

lemma ok_has_no_severity: "fst (mandate_new_status m) = OK \<Longrightarrow> snd (mandate_new_status m) = None"
  by (simp add: mandate_new_status_def Let_def split: if_splits)

lemma check_mandate_unchanged:
  "m_status m = fst (mandate_new_status m) \<Longrightarrow> check_mandate now m st = st"
  by (simp add: check_mandate_def split: prod.splits)

lemma fold_check_unchanged:
  "\<forall>m \<in> set ms. m_status m = fst (mandate_new_status m) \<Longrightarrow>
     fold (check_mandate now) ms st = st"
  by (induction ms arbitrary: st) (simp_all add: check_mandate_unchanged)

lemma check_mandate_alerts:
  "risk_alerts (check_mandate now m st) = risk_alerts st @ emitted_alerts m"
  "broadcasts (check_mandate now m st) = broadcasts st @ map MANDATE_ALERT (emitted_alerts m)"
  by (simp_all add: check_mandate_def emitted_alerts_def Let_def split: prod.splits option.splits)

lemma fold_check_alerts:
  "risk_alerts (fold (check_mandate now) ms st) = risk_alerts st @ concat (map emitted_alerts ms)"
  "broadcasts (fold (check_mandate now) ms st)
     = broadcasts st @ map MANDATE_ALERT (concat (map emitted_alerts ms))"
  by (induction ms arbitrary: st) (simp_all add: check_mandate_alerts)

lemma check_mandate_rows:
  "risk_mandates (check_mandate now m st) =
     map (\<lambda>r. if m_id r = m_id m \<and> m_status m \<noteq> fst (mandate_new_status m)
              then r\<lparr>m_status := fst (mandate_new_status m), m_updated_at := now\<rparr> else r)
       (risk_mandates st)"
  by (auto simp add: check_mandate_def set_mandate_status_def Let_def map_idI
      split: prod.splits option.splits)

lemma check_row_id [simp]: "m_id (check_row now ms r) = m_id r"
  by (simp add: check_row_def split: option.splits)

lemma find_None_distinct: "i \<notin> m_id ` set ms \<Longrightarrow> find (\<lambda>m. m_id m = i) ms = None"
  by (auto simp add: find_None_iff)

lemma fold_check_rows:
  "distinct (map m_id ms) \<Longrightarrow>
     risk_mandates (fold (check_mandate now) ms st) = map (check_row now ms) (risk_mandates st)"
proof (induction ms arbitrary: st)
  case Nil
  show ?case by (simp add: check_row_def)
next
  case (Cons m ms)
  then have d: "m_id m \<notin> m_id ` set ms" and ds: "distinct (map m_id ms)" by auto
  have "risk_mandates (fold (check_mandate now) (m # ms) st)
          = map (check_row now ms) (risk_mandates (check_mandate now m st))"
    using Cons.IH [OF ds] by simp
  also have "\<dots> = map (check_row now (m # ms)) (risk_mandates st)"
    using d by (auto simp add: check_mandate_rows check_row_def find_None_distinct)
  finally show ?case .
qed

lemma find_filter_distinct:
  "distinct (map m_id rows) \<Longrightarrow> r \<in> set rows \<Longrightarrow>
     find (\<lambda>m. m_id m = m_id r) (filter P rows) = (if P r then Some r else None)"
proof (induction rows)
  case Nil
  then show ?case by simp
next
  case (Cons x rows)
  show ?case
  proof (cases "x = r")
    case True
    with Cons.prems have n: "m_id r \<notin> m_id ` set rows" by simp
    have "find (\<lambda>m. m_id m = m_id r) (filter P rows) = None"
    proof (rule ccontr)
      assume "find (\<lambda>m. m_id m = m_id r) (filter P rows) \<noteq> None"
      then obtain y where "y \<in> set rows" and "m_id y = m_id r"
        by (auto simp add: find_None_iff)
      then have "m_id r \<in> m_id ` set rows" by (metis image_eqI)
      with n show False by simp
    qed
    with True show ?thesis by simp
  next
    case False
    with Cons.prems have r: "r \<in> set rows" and "m_id x \<noteq> m_id r" by force+
    with Cons.IH Cons.prems show ?thesis by simp
  qed
qed

lemma check_mandate_breaches_rows:
  assumes "distinct (map m_id (risk_mandates st))"
  shows "risk_mandates (check_mandate_breaches now st) = map (checked now) (risk_mandates st)"
proof -
  have d: "distinct (map m_id (filter m_is_active (risk_mandates st)))"
    using assms by (simp add: distinct_map_filter)
  have "map (check_row now (filter m_is_active (risk_mandates st))) (risk_mandates st)
          = map (checked now) (risk_mandates st)"
    by (rule map_cong [OF refl])
       (simp add: check_row_def checked_def find_filter_distinct [OF assms])
  with fold_check_rows [OF d] show ?thesis by (simp add: check_mandate_breaches_def)
qed

lemma update_mandate_value_keys:
  "map mandate_key (risk_mandates (update_mandate_value upd m st))
     = map mandate_key (risk_mandates st)"
  "risk_alerts (update_mandate_value upd m st) = risk_alerts st"
  by (simp_all add: update_mandate_value_def set_current_value_def mandate_key_def
      split: option.splits)

lemma fold_update_mandate_value_keys:
  "map mandate_key (risk_mandates (fold (update_mandate_value upd) ms st))
     = map mandate_key (risk_mandates st)"
  "risk_alerts (fold (update_mandate_value upd) ms st) = risk_alerts st"
  by (induction ms arbitrary: st) (simp_all add: update_mandate_value_keys)

lemma update_mandate_values_keys:
  "map mandate_key (risk_mandates (update_mandate_values upd st))
     = map mandate_key (risk_mandates st)"
  "risk_alerts (update_mandate_values upd st) = risk_alerts st"
  by (simp_all add: update_mandate_values_def fold_update_mandate_value_keys)

lemma keys_ids: "map m_id rows = map fst (map mandate_key rows)"
  by (simp add: mandate_key_def)

lemma keys_persisted:
  "persisted i s st = (\<forall>k \<in> set (map mandate_key (risk_mandates st)).
                          fst k = i \<and> snd (snd k) \<longrightarrow> fst (snd k) = s)"
  by (simp add: persisted_def mandate_key_def)

lemma update_mandate_values_distinct:
  "distinct (map m_id (risk_mandates (update_mandate_values upd st)))
     = distinct (map m_id (risk_mandates st))"
  by (simp only: keys_ids update_mandate_values_keys)

lemma update_mandate_values_persisted:
  "persisted i s (update_mandate_values upd st) = persisted i s st"
  by (simp only: keys_persisted update_mandate_values_keys)

lemma update_mandate_values_alerts_for:
  "alerts_for i (update_mandate_values upd st) = alerts_for i st"
  by (simp add: alerts_for_def update_mandate_values_keys)

lemma emitted_alerts_id: "a \<in> set (emitted_alerts m) \<Longrightarrow> a_mandate_id a = m_id m"
proof -
  assume a: "a \<in> set (emitted_alerts m)"
  obtain ns sev where e: "mandate_new_status m = (ns, sev)"
    by (cases "mandate_new_status m")
  with a show ?thesis
    by (cases sev; cases "m_status m = ns") (simp_all add: emitted_alerts_def mandate_alert_def)
qed

lemma emitted_alerts_length: "length (emitted_alerts m) \<le> 1"
  by (simp add: emitted_alerts_def split: prod.splits option.splits)

lemma emitted_alerts_none:
  "m_status m = fst (mandate_new_status m) \<Longrightarrow> emitted_alerts m = []"
  by (simp add: emitted_alerts_def split: prod.splits)

lemma emitted_alerts_other:
  "m_id m \<noteq> i \<Longrightarrow> filter (\<lambda>a. a_mandate_id a = i) (emitted_alerts m) = []"
  by (auto simp add: filter_empty_conv dest: emitted_alerts_id)

lemma emitted_for_absent:
  "\<forall>m \<in> set ms. m_id m = i \<longrightarrow> emitted_alerts m = [] \<Longrightarrow>
     filter (\<lambda>a. a_mandate_id a = i) (concat (map emitted_alerts ms)) = []"
proof (induction ms)
  case Nil
  show ?case by simp
next
  case (Cons m ms)
  then show ?case by (cases "m_id m = i") (simp_all add: emitted_alerts_other)
qed

lemma emitted_for_at_most_one:
  "distinct (map m_id ms) \<Longrightarrow>
     length (filter (\<lambda>a. a_mandate_id a = i) (concat (map emitted_alerts ms))) \<le> 1"
proof (induction ms)
  case Nil
  show ?case by simp
next
  case (Cons m ms)
  show ?case
  proof (cases "m_id m = i")
    case True
    with Cons.prems have "\<forall>x \<in> set ms. m_id x = i \<longrightarrow> emitted_alerts x = []"
      by (metis distinct.simps(2) image_eqI list.simps(9) set_map)
    then have "filter (\<lambda>a. a_mandate_id a = i) (concat (map emitted_alerts ms)) = []"
      by (rule emitted_for_absent)
    moreover have "length (filter (\<lambda>a. a_mandate_id a = i) (emitted_alerts m)) \<le> 1"
      using emitted_alerts_length [of m]
        length_filter_le [of "\<lambda>a. a_mandate_id a = i" "emitted_alerts m"]
      by linarith
    ultimately show ?thesis by simp
  next
    case False
    with Cons show ?thesis by (simp add: emitted_alerts_other)
  qed
qed

lemma check_mandate_breaches_alerts_for:
  "alerts_for i (check_mandate_breaches now st)
     = alerts_for i st @ filter (\<lambda>a. a_mandate_id a = i)
         (concat (map emitted_alerts (filter m_is_active (risk_mandates st))))"
  by (simp add: alerts_for_def check_mandate_breaches_def fold_check_alerts)

lemma checked_key:
  "m_id (checked now r) = m_id r" "m_is_active (checked now r) = m_is_active r"
  by (simp_all add: checked_def)

lemma check_mandate_breaches_distinct:
  "distinct (map m_id (risk_mandates st)) \<Longrightarrow>
     distinct (map m_id (risk_mandates (check_mandate_breaches now st)))"
  by (simp add: check_mandate_breaches_rows checked_key comp_def)

lemma check_mandate_breaches_persisted:
  assumes "distinct (map m_id (risk_mandates st))"
    and "\<forall>m \<in> set (risk_mandates st).
           m_id m = i \<and> m_is_active m \<longrightarrow> fst (mandate_new_status m) = s"
  shows "persisted i s (check_mandate_breaches now st)"
  using assms(2)
  by (auto simp add: persisted_def check_mandate_breaches_rows [OF assms(1)] checked_def)

lemma evaluated_head:
  "set (evaluated_statuses i (it # its) st) \<subseteq> {s} \<Longrightarrow>
     (\<forall>m \<in> set (risk_mandates (update_mandate_values (snd it) st)).
         m_id m = i \<and> m_is_active m \<longrightarrow> fst (mandate_new_status m) = s)
     \<and> set (evaluated_statuses i its (risk_monitoring_iteration it st)) \<subseteq> {s}"
  by auto

lemma no_alert_once_persisted:
  "distinct (map m_id (risk_mandates st)) \<Longrightarrow> persisted i s st \<Longrightarrow>
   set (evaluated_statuses i its st) \<subseteq> {s} \<Longrightarrow>
     alerts_for i (risk_monitoring_loop its st) = alerts_for i st"
proof (induction its arbitrary: st)
  case Nil
  show ?case by (simp add: risk_monitoring_loop_def)
next
  case (Cons it its)
  let ?st1 = "update_mandate_values (snd it) st"
  let ?st2 = "risk_monitoring_iteration it st"
  have st2: "?st2 = check_mandate_breaches (fst it) ?st1"
    by (simp add: risk_monitoring_iteration_def)
  from evaluated_head [OF Cons.prems(3)]
  have ev: "\<forall>m \<in> set (risk_mandates ?st1).
              m_id m = i \<and> m_is_active m \<longrightarrow> fst (mandate_new_status m) = s"
    and rest: "set (evaluated_statuses i its ?st2) \<subseteq> {s}" by blast+
  have d1: "distinct (map m_id (risk_mandates ?st1))"
    using Cons.prems(1) by (simp add: update_mandate_values_distinct)
  have p1: "persisted i s ?st1"
    using Cons.prems(2) by (simp add: update_mandate_values_persisted)
  have d2: "distinct (map m_id (risk_mandates ?st2))"
    unfolding st2 by (rule check_mandate_breaches_distinct [OF d1])
  have p2: "persisted i s ?st2"
    unfolding st2 by (rule check_mandate_breaches_persisted [OF d1 ev])
  have "\<forall>m \<in> set (filter m_is_active (risk_mandates ?st1)).
          m_id m = i \<longrightarrow> emitted_alerts m = []"
    using ev p1 by (auto simp add: persisted_def intro: emitted_alerts_none)
  then have "alerts_for i ?st2 = alerts_for i ?st1"
    unfolding st2 by (simp add: check_mandate_breaches_alerts_for emitted_for_absent)
  then have a2: "alerts_for i ?st2 = alerts_for i st"
    by (simp add: update_mandate_values_alerts_for)
  have "alerts_for i (risk_monitoring_loop (it # its) st)
          = alerts_for i (risk_monitoring_loop its ?st2)"
    by (simp add: risk_monitoring_loop_def)
  also have "\<dots> = alerts_for i ?st2" by (rule Cons.IH [OF d2 p2 rest])
  finally show ?case using a2 by simp
qed

lemma at_most_one_alert:
  assumes "distinct (map m_id (risk_mandates st))"
    and "set (evaluated_statuses i its st) \<subseteq> {s}"
  shows "length (alerts_for i (risk_monitoring_loop its st)) \<le> length (alerts_for i st) + 1"
proof (cases its)
  case Nil
  then show ?thesis by (simp add: risk_monitoring_loop_def)
next
  case (Cons it its')
  let ?st1 = "update_mandate_values (snd it) st"
  let ?st2 = "risk_monitoring_iteration it st"
  have st2: "?st2 = check_mandate_breaches (fst it) ?st1"
    by (simp add: risk_monitoring_iteration_def)
  from evaluated_head [OF assms(2) [unfolded Cons]]
  have ev: "\<forall>m \<in> set (risk_mandates ?st1).
              m_id m = i \<and> m_is_active m \<longrightarrow> fst (mandate_new_status m) = s"
    and rest: "set (evaluated_statuses i its' ?st2) \<subseteq> {s}" by blast+
  have d1: "distinct (map m_id (risk_mandates ?st1))"
    using assms(1) by (simp add: update_mandate_values_distinct)
  have d2: "distinct (map m_id (risk_mandates ?st2))"
    unfolding st2 by (rule check_mandate_breaches_distinct [OF d1])
  have p2: "persisted i s ?st2"
    unfolding st2 by (rule check_mandate_breaches_persisted [OF d1 ev])
  have "distinct (map m_id (filter m_is_active (risk_mandates ?st1)))"
    using d1 by (simp add: distinct_map_filter)
  from emitted_for_at_most_one [OF this, of i]
  have "length (alerts_for i ?st2) \<le> length (alerts_for i ?st1) + 1"
    unfolding st2 by (simp add: check_mandate_breaches_alerts_for)
  then have "length (alerts_for i ?st2) \<le> length (alerts_for i st) + 1"
    by (simp add: update_mandate_values_alerts_for)
  moreover have "alerts_for i (risk_monitoring_loop its st) = alerts_for i ?st2"
    using no_alert_once_persisted [OF d2 p2 rest] by (simp add: Cons risk_monitoring_loop_def)
  ultimately show ?thesis by simp
qed

lemmas monitor_defs = risk_monitoring_loop_def risk_monitoring_iteration_def
  update_mandate_values_def update_mandate_value_def set_current_value_def
  check_mandate_breaches_def check_mandate_def set_mandate_status_def mandate_alert_def
  mandate_new_status_def truthy_def alerts_for_def Let_def

lemma same_id_same_row:
  "distinct (map m_id rows) \<Longrightarrow> x \<in> set rows \<Longrightarrow> y \<in> set rows \<Longrightarrow> m_id x = m_id y \<Longrightarrow> x = y"
  by (meson distinct_map inj_onD)

lemma back_to_ok:
  assumes d: "distinct (map m_id (risk_mandates st))"
    and m: "m \<in> set (risk_mandates st)" "m_is_active m" "m_status m \<noteq> OK"
      "fst (mandate_new_status m) = OK"
  shows "m\<lparr>m_status := OK, m_updated_at := now\<rparr> \<in> set (risk_mandates (check_mandate_breaches now st))
       \<and> alerts_for (m_id m) (check_mandate_breaches now st) = alerts_for (m_id m) st"
proof
  have "checked now m = m\<lparr>m_status := OK, m_updated_at := now\<rparr>"
    using m by (simp add: checked_def)
  with m(1) show "m\<lparr>m_status := OK, m_updated_at := now\<rparr>
                    \<in> set (risk_mandates (check_mandate_breaches now st))"
    by (simp add: check_mandate_breaches_rows [OF d]) (metis image_eqI)
next
  have "emitted_alerts m = []"
    using m(4) ok_has_no_severity [OF m(4)]
    by (cases "mandate_new_status m") (simp add: emitted_alerts_def)
  then have "\<forall>x \<in> set (filter m_is_active (risk_mandates st)).
               m_id x = m_id m \<longrightarrow> emitted_alerts x = []"
    using same_id_same_row [OF d _ m(1)] by auto
  then show "alerts_for (m_id m) (check_mandate_breaches now st) = alerts_for (m_id m) st"
    by (simp add: check_mandate_breaches_alerts_for emitted_for_absent)
qed

lemma alerts_are_broadcast:
  "\<exists>new. risk_alerts (check_mandate_breaches now st) = risk_alerts st @ new
         \<and> broadcasts (check_mandate_breaches now st)
             = broadcasts st @ map MANDATE_ALERT new"
  by (simp add: check_mandate_breaches_def fold_check_alerts)

lemma pass_unchanged:
  "\<forall>m \<in> set (risk_mandates st). m_is_active m \<longrightarrow> fst (mandate_new_status m) = m_status m \<Longrightarrow>
     check_mandate_breaches now st = st"
  by (simp add: check_mandate_breaches_def fold_check_unchanged)

lemma mandate_store_distinct: "distinct (map m_id (risk_mandates mandate_store))"
  by (simp add: mandate_store_def)

lemma breach_statuses:
  "evaluated_statuses 1 breach_iterations mandate_store = [BREACH, BREACH, BREACH]"
  by (simp add: breach_iterations_def mandate_store_def exposure_mandate_def fresh_store_def
      monitor_defs)

lemma rising_scenario:
  "evaluated_statuses 1 rising_iterations mandate_store = [OK, WARNING, BREACH]
   \<and> map a_severity (alerts_for 1 (risk_monitoring_loop rising_iterations mandate_store))
       = [WARNING_SEVERITY, CRITICAL]"
  by (simp add: rising_iterations_def mandate_store_def exposure_mandate_def fresh_store_def
      monitor_defs)

lemma same_status_no_write:
  assumes d: "distinct (map m_id (risk_mandates st))"
    and m: "m \<in> set (risk_mandates st)" "m_is_active m"
      "fst (mandate_new_status m) = m_status m"
  shows "m \<in> set (risk_mandates (check_mandate_breaches now st))
       \<and> alerts_for (m_id m) (check_mandate_breaches now st) = alerts_for (m_id m) st"
proof
  have "checked now m = m"
    using m by (simp add: checked_def)
  with m(1) show "m \<in> set (risk_mandates (check_mandate_breaches now st))"
    by (simp add: check_mandate_breaches_rows [OF d]) (metis image_eqI)
next
  have "emitted_alerts m = []"
    by (rule emitted_alerts_none [OF m(3) [symmetric]])
  then have "\<forall>x \<in> set (filter m_is_active (risk_mandates st)).
               m_id x = m_id m \<longrightarrow> emitted_alerts x = []"
    using same_id_same_row [OF d _ m(1)] by auto
  then show "alerts_for (m_id m) (check_mandate_breaches now st) = alerts_for (m_id m) st"
    by (simp add: check_mandate_breaches_alerts_for emitted_for_absent)
qed

text \<open>
  C3.  The mandates are identified by their primary key.  A pass of \<open>check_mandate_breaches\<close>
  over a mandate whose computed status is the stored one leaves the row of the mandate as it
  is (\<open>updated_at\<close> included: no status write) and stores no alert for it; when this holds
  for every active mandate the pass changes nothing at all, so nothing is broadcast either.
  Over any number of iterations of the monitoring loop in which the status computed for a
  mandate is always the same, at most one alert is stored for the mandate.  A mandate that
  evaluates to OK while another status is stored gets the status OK written, and no alert.
  The alerts a pass broadcasts are the alerts it stores.
\<close>

theorem mandate_alerts_edge_triggered:
  assumes "distinct (map m_id (risk_mandates st))"
  shows "(m \<in> set (risk_mandates st) \<and> m_is_active m \<and> fst (mandate_new_status m) = m_status m
            \<longrightarrow> m \<in> set (risk_mandates (check_mandate_breaches now st))
                \<and> alerts_for (m_id m) (check_mandate_breaches now st) = alerts_for (m_id m) st)
       \<and> ((\<forall>r \<in> set (risk_mandates st). m_is_active r \<longrightarrow> fst (mandate_new_status r) = m_status r)
            \<longrightarrow> check_mandate_breaches now st = st)
       \<and> (set (evaluated_statuses i its st) \<subseteq> {s}
            \<longrightarrow> length (alerts_for i (risk_monitoring_loop its st)) \<le> length (alerts_for i st) + 1)
       \<and> (m \<in> set (risk_mandates st) \<and> m_is_active m \<and> m_status m \<noteq> OK
            \<and> fst (mandate_new_status m) = OK
            \<longrightarrow> m\<lparr>m_status := OK, m_updated_at := now\<rparr>
                    \<in> set (risk_mandates (check_mandate_breaches now st))
                \<and> alerts_for (m_id m) (check_mandate_breaches now st) = alerts_for (m_id m) st)
       \<and> (\<exists>new. risk_alerts (check_mandate_breaches now st) = risk_alerts st @ new
                 \<and> broadcasts (check_mandate_breaches now st)
                     = broadcasts st @ map MANDATE_ALERT new)"
  using pass_unchanged [of st now] at_most_one_alert [OF assms, of i its s]
    back_to_ok [OF assms, of m now] same_status_no_write [OF assms, of m now]
    alerts_are_broadcast [of now st]
  by blast

theorem mandate_alerts_edge_triggered_witness:
  "distinct (map m_id (risk_mandates mandate_store))
   \<and> evaluated_statuses 1 breach_iterations mandate_store = [BREACH, BREACH, BREACH]
   \<and> length (alerts_for 1 (risk_monitoring_loop breach_iterations mandate_store)) \<le> 1
   \<and> check_mandate_breaches 4 mandate_store = mandate_store
   \<and> exposure_mandate \<in> set (risk_mandates (check_mandate_breaches 4 mandate_store))
   \<and> recovering_mandate\<lparr>m_status := OK, m_updated_at := 5\<rparr>
        \<in> set (risk_mandates (check_mandate_breaches 5 recovering_store))
   \<and> alerts_for 1 (check_mandate_breaches 5 recovering_store) = []"
proof -
  have e: "set (evaluated_statuses 1 breach_iterations mandate_store) \<subseteq> {BREACH}"
    unfolding breach_statuses by simp
  have a: "alerts_for 1 mandate_store = []"
    by (simp add: alerts_for_def mandate_store_def fresh_store_def)
  from mandate_alerts_edge_triggered
         [OF mandate_store_distinct, where i = 1 and its = breach_iterations and s = BREACH]
       e a
  have 1: "length (alerts_for 1 (risk_monitoring_loop breach_iterations mandate_store)) \<le> 1"
    by simp
  have same: "exposure_mandate \<in> set (risk_mandates mandate_store)"
    "m_is_active exposure_mandate"
    "fst (mandate_new_status exposure_mandate) = m_status exposure_mandate"
    "\<forall>r \<in> set (risk_mandates mandate_store).
       m_is_active r \<longrightarrow> fst (mandate_new_status r) = m_status r"
    by (simp_all add: mandate_store_def exposure_mandate_def mandate_new_status_def truthy_def)
  from mandate_alerts_edge_triggered
         [OF mandate_store_distinct, where m = exposure_mandate and now = 4] same
  have 2: "check_mandate_breaches 4 mandate_store = mandate_store"
    and 3: "exposure_mandate \<in> set (risk_mandates (check_mandate_breaches 4 mandate_store))"
    by blast+
  have d: "distinct (map m_id (risk_mandates recovering_store))"
    by (simp add: recovering_store_def)
  have rec: "recovering_mandate \<in> set (risk_mandates recovering_store)"
    "m_is_active recovering_mandate" "m_status recovering_mandate \<noteq> OK"
    "fst (mandate_new_status recovering_mandate) = OK"
    by (simp_all add: recovering_store_def recovering_mandate_def exposure_mandate_def
        mandate_new_status_def truthy_def)
  have i: "m_id recovering_mandate = 1" "alerts_for 1 recovering_store = []"
    by (simp_all add: recovering_store_def recovering_mandate_def exposure_mandate_def
        alerts_for_def fresh_store_def)
  from mandate_alerts_edge_triggered [OF d, where m = recovering_mandate and now = 5] rec
  have "recovering_mandate\<lparr>m_status := OK, m_updated_at := 5\<rparr>
          \<in> set (risk_mandates (check_mandate_breaches 5 recovering_store))
      \<and> alerts_for (m_id recovering_mandate) (check_mandate_breaches 5 recovering_store)
          = alerts_for (m_id recovering_mandate) recovering_store"
    by blast
  with i have 4: "recovering_mandate\<lparr>m_status := OK, m_updated_at := 5\<rparr>
          \<in> set (risk_mandates (check_mandate_breaches 5 recovering_store))"
    and 5: "alerts_for 1 (check_mandate_breaches 5 recovering_store) = []"
    by simp_all
  from mandate_store_distinct breach_statuses 1 2 3 4 5 show ?thesis by blast
qed


end
